theory Spec2Isabelle
  imports Main "HOL-Library.Log_Nat" "HOL-Library.Product_Lexorder"
begin

section \<open>Python strings\<close>

text \<open>
  The scraper works on Python \<open>str\<close> values, which are sequences of Unicode code points.
  A string of the model is the list of its code points, so that slicing, \<open>len\<close> and the
  whitespace tests count what Python counts. \<open>str\<close> turns a literal of the theory
  into such a string.
\<close>

type_synonym pychar = nat
type_synonym pystr = "pychar list"

definition str :: "string \<Rightarrow> pystr" where
  "str s = map of_char s"

text \<open>
  \<open>NOT_FOUND\<close> is the sentinel \<^verbatim>\<open>"Not found"\<close> that models.py and scraper.py write
  into every field that could not be extracted.
\<close>

definition NOT_FOUND :: pystr where
  "NOT_FOUND = str ''Not found''"

subsection \<open>utils.py: \<open>clean_text\<close>\<close>

text \<open>
  \<^verbatim>\<open>
  def clean_text(text):
      if not text:
          return ""
      return ' '.join(text.strip().split())
  \<close>
  \<open>isspace\<close> is Python's \<open>str.isspace\<close> on one code point, the test \<open>str.strip()\<close>
  and \<open>str.split()\<close> without arguments use. \<open>split_acc\<close> is the scan of \<open>str.split()\<close>:
  \<open>cur\<close> is the word being read. An absent text (\<open>None\<close>) and the empty string are both
  falsy.
\<close>

definition isspace :: "pychar \<Rightarrow> bool" where
  "isspace c \<longleftrightarrow>
     c \<in> {9, 10, 11, 12, 13, 28, 29, 30, 31, 32, 133, 160, 5760, 8232, 8233, 8239, 8287, 12288}
     \<or> (8192 \<le> c \<and> c \<le> 8202)"

definition strip :: "pystr \<Rightarrow> pystr" where
  "strip s = rev (dropWhile isspace (rev (dropWhile isspace s)))"

fun split_acc :: "pystr \<Rightarrow> pystr \<Rightarrow> pystr list" where
  "split_acc cur [] = (if cur = [] then [] else [cur])"
| "split_acc cur (c # cs) =
     (if isspace c then (if cur = [] then split_acc [] cs else cur # split_acc [] cs)
      else split_acc (cur @ [c]) cs)"

definition split_ws :: "pystr \<Rightarrow> pystr list" where
  "split_ws s = split_acc [] s"

fun join_with :: "pystr \<Rightarrow> pystr list \<Rightarrow> pystr" where
  "join_with sep [] = []"
| "join_with sep [w] = w"
| "join_with sep (w # ws) = w @ sep @ join_with sep ws"

definition clean_text :: "pystr option \<Rightarrow> pystr" where
  "clean_text text =
     (case text of
        None \<Rightarrow> []
      | Some t \<Rightarrow> if t = [] then [] else join_with (str '' '') (split_ws (strip t)))"

subsection \<open>String operations used by the scraper\<close>

text \<open>
  \<open>contains sub s\<close> is Python's \<open>sub in s\<close>, \<open>before_first sep s\<close> is \<open>s.split(sep)[0]\<close>
  (the part of \<open>s\<close> before the first occurrence of \<open>sep\<close>, all of \<open>s\<close> when there is
  none), \<open>replace_all old new s\<close> is \<open>s.replace(old, new)\<close> for the non-empty \<open>old\<close> the
  scraper passes, and \<open>lower\<close> lowers the letters A to Z, which is what the scraper's only
  use of \<open>str.lower()\<close>, the test \<open>'amazon' in seller_name.lower()\<close>, depends on.
\<close>

fun starts_with :: "'a list \<Rightarrow> 'a list \<Rightarrow> bool" where
  "starts_with [] s = True"
| "starts_with (x # xs) [] = False"
| "starts_with (x # xs) (c # cs) = (x = c \<and> starts_with xs cs)"

fun contains :: "'a list \<Rightarrow> 'a list \<Rightarrow> bool" where
  "contains sub [] = (sub = [])"
| "contains sub (c # cs) = (starts_with sub (c # cs) \<or> contains sub cs)"

fun before_first :: "'a list \<Rightarrow> 'a list \<Rightarrow> 'a list" where
  "before_first sep [] = []"
| "before_first sep (c # cs) = (if starts_with sep (c # cs) then [] else c # before_first sep cs)"

function replace_all :: "'a list \<Rightarrow> 'a list \<Rightarrow> 'a list \<Rightarrow> 'a list" where
  "replace_all old new [] = []"
| "replace_all old new (c # cs) =
     (if old \<noteq> [] \<and> starts_with old (c # cs)
      then new @ replace_all old new (drop (length old) (c # cs))
      else c # replace_all old new cs)"
  by pat_completeness auto
termination
  by (relation "measure (\<lambda>(old, new, s). length s)") auto

definition lower :: "pystr \<Rightarrow> pystr" where
  "lower s = map (\<lambda>c. if 65 \<le> c \<and> c \<le> 90 then c + 32 else c) s"

text \<open>\<open>str(n)\<close> for an integer: its decimal digits, with a minus sign when negative.\<close>

function digits_of :: "nat \<Rightarrow> pystr" where
  "digits_of n = (if n < 10 then [48 + n] else digits_of (n div 10) @ [48 + n mod 10])"
  by pat_completeness auto
termination
  by (relation "measure id") auto

declare digits_of.simps [simp del]

definition str_int :: "int \<Rightarrow> pystr" where
  "str_int i = (if i < 0 then 45 # digits_of (nat (- i)) else digits_of (nat i))"

section \<open>What the libraries return\<close>

text \<open>
  The scraper is written on top of \<open>bs4\<close>, \<open>re\<close>, \<open>json\<close>, \<open>urllib\<close> and \<open>requests\<close>.
  Their code is not part of the repository, so the model takes what they return as data:
  a parsed page is the record of the answers \<open>BeautifulSoup\<close> gives to the queries the
  scraper makes, and the functions of \<open>re\<close>, \<open>json\<close>, \<open>urllib\<close> and \<open>requests\<close> are
  the fields of a record \<open>lib\<close>. Every theorem below holds for all pages and all
  behaviours of these libraries.
\<close>

subsection \<open>Numbers and JSON values\<close>

text \<open>
  A Python \<open>float\<close> is finite, infinite or NaN. A finite one is its sign (\<open>True\<close> for
  negative, so that \<open>-0.0\<close> is \<open>Finite True 0\<close>) and its exact magnitude, a rational
  number. \<open>json.loads\<close> returns an \<open>int\<close> for a JSON number without fraction and
  exponent and a \<open>float\<close> otherwise, and it accepts \<open>NaN\<close>, \<open>Infinity\<close> and
  \<open>-Infinity\<close>.
\<close>

datatype pyfloat =
    Finite bool rat
  | Infinity bool
  | NaN

datatype pynum = PInt int | PFloat pyfloat

text \<open>
  Python compares numbers by their exact values, also an \<open>int\<close> with a \<open>float\<close>; every
  comparison with NaN is false. \<open>num_rank\<close> places a number that is not NaN on a line:
  minus infinity, the rationals, plus infinity.
\<close>

definition float_rank :: "pyfloat \<Rightarrow> (int \<times> rat) option" where
  "float_rank x =
     (case x of
        Finite neg m \<Rightarrow> Some (0, if neg then - m else m)
      | Infinity neg \<Rightarrow> Some (if neg then - 1 else 1, 0)
      | NaN \<Rightarrow> None)"

definition num_rank :: "pynum \<Rightarrow> (int \<times> rat) option" where
  "num_rank x = (case x of PInt n \<Rightarrow> Some (0, of_int n) | PFloat f \<Rightarrow> float_rank f)"

definition num_lt :: "pynum \<Rightarrow> pynum \<Rightarrow> bool" where
  "num_lt a b = (case (num_rank a, num_rank b) of (Some x, Some y) \<Rightarrow> x < y | _ \<Rightarrow> False)"

definition num_le :: "pynum \<Rightarrow> pynum \<Rightarrow> bool" where
  "num_le a b = (case (num_rank a, num_rank b) of (Some x, Some y) \<Rightarrow> x \<le> y | _ \<Rightarrow> False)"


text \<open>
  A value returned by \<open>json.loads\<close>. An object keeps its keys in document order, each
  key once, as a Python \<open>dict\<close> does.
\<close>

datatype json =
    JNull
  | JBool bool
  | JInt int
  | JFloat pyfloat
  | JStr pystr
  | JList "json list"
  | JDict "(pystr \<times> json) list"

subsection \<open>Elements\<close>

text \<open>
  A tag found by \<open>soup.find\<close> or \<open>soup.select\<close>: its attributes and the text nodes below
  it in document order. \<open>get_text\<close> is \<open>tag.get_text()\<close>, \<open>get_text_strip\<close> is
  \<open>tag.get_text(strip=True)\<close> and \<open>get_text_sep_strip sep\<close> is
  \<open>tag.get_text(sep, strip=True)\<close>: with \<open>strip=True\<close> every text node is stripped and
  the empty ones are dropped before joining. A tag is truthy whatever it contains, so
  \<open>if tag:\<close> tests that the query found one.
\<close>

record element =
  attrs :: "(pystr \<times> pystr) list"
  strings :: "pystr list"

definition get_attr :: "element \<Rightarrow> string \<Rightarrow> pystr option" where
  "get_attr e name = map_of (attrs e) (str name)"

definition has_attr :: "element \<Rightarrow> string \<Rightarrow> bool" where
  "has_attr e name \<longleftrightarrow> get_attr e name \<noteq> None"

definition get_text :: "element \<Rightarrow> pystr" where
  "get_text e = concat (strings e)"

definition stripped_strings :: "element \<Rightarrow> pystr list" where
  "stripped_strings e = filter (\<lambda>t. t \<noteq> []) (map strip (strings e))"

definition get_text_strip :: "element \<Rightarrow> pystr" where
  "get_text_strip e = concat (stripped_strings e)"

definition get_text_sep_strip :: "pystr \<Rightarrow> element \<Rightarrow> pystr" where
  "get_text_sep_strip sep e = join_with sep (stripped_strings e)"

subsection \<open>The product page\<close>

text \<open>
  One field for each query \<open>scraper.py\<close> makes on the parsed product page; the comment
  gives the query. A query nested in another (\<open>price_div.find(...)\<close>) is an option
  inside the option of the outer one.
\<close>

datatype selector =
    LandingImage          \<comment> \<open>\<^verbatim>\<open>#landingImage\<close>\<close>
  | DataOldHires          \<comment> \<open>\<^verbatim>\<open>[data-old-hires]\<close>\<close>
  | DynamicImageClass     \<comment> \<open>\<^verbatim>\<open>.a-dynamic-image\<close>\<close>
  | ImgDynamicImage       \<comment> \<open>\<^verbatim>\<open>img[data-a-dynamic-image]\<close>\<close>
  | ImgTagWrapper         \<comment> \<open>\<^verbatim>\<open>#imgTagWrapperId img\<close>\<close>

record main_price_parts =
  price_symbol :: "element option"    \<comment> \<open>\<open>main_price.find('span', class_='a-price-symbol')\<close>\<close>
  price_whole :: "element option"     \<comment> \<open>\<open>main_price.find('span', class_='a-price-whole')\<close>\<close>
  price_fraction :: "element option"  \<comment> \<open>\<open>main_price.find('span', class_='a-price-fraction')\<close>\<close>

record page =
  productTitle :: "element option"
    \<comment> \<open>\<open>soup.find('span', id='productTitle')\<close>\<close>
  bylineInfo :: "element option"
    \<comment> \<open>\<open>soup.find('a', id='bylineInfo')\<close>\<close>
  price_div :: "element option option"
    \<comment> \<open>the \<open>div\<close> of class \<open>a-section a-spacing-none aok-align-center aok-relative\<close>,
        and in it \<open>price_div.find('span', class_='aok-offscreen')\<close>\<close>
  main_price :: "main_price_parts option"
    \<comment> \<open>the \<open>span\<close> of class \<open>a-price ... priceToPay\<close> and the three queries in it\<close>
  icon_alt :: "element option"
    \<comment> \<open>\<open>soup.find('span', class_='a-icon-alt')\<close>\<close>
  acrCustomerReviewText :: "element option"
    \<comment> \<open>\<open>soup.find('span', id='acrCustomerReviewText')\<close>\<close>
  select :: "selector \<Rightarrow> element list"
    \<comment> \<open>\<open>soup.select(selector)\<close> for the five image selectors\<close>
  productDescription :: "element option"
    \<comment> \<open>\<open>soup.find('div', id='productDescription')\<close>\<close>
  fba_elements :: "pystr list"
    \<comment> \<open>\<open>soup.find_all(string=re.compile(r'fulfilled.*amazon|amazon.*fulfilled', re.I))\<close>\<close>
  ac_badge :: "element option"
    \<comment> \<open>\<open>soup.find('span', {'class': 'ac-badge-rectangle'})\<close>\<close>
  amazon_seller :: "element option"
    \<comment> \<open>\<open>soup.find('span', string=re.compile(r'^Amazon\.com$', re.I))\<close>\<close>
  merchant_info :: "element option"
    \<comment> \<open>\<open>soup.find('div', {'id': 'merchant-info'})\<close>\<close>
  seller_profile_div :: "element option"
    \<comment> \<open>\<open>soup.find('div', {'id': 'sellerProfileTriggerId'})\<close>\<close>
  availability :: "element option"
    \<comment> \<open>\<open>soup.find('div', {'id': 'availability'})\<close>\<close>
  seller_link :: "element option"
    \<comment> \<open>\<open>soup.find('a', {'id': 'sellerProfileTriggerId'})\<close>\<close>
  feedback_link :: "element option"
    \<comment> \<open>\<open>soup.find('a', {'href': re.compile(r'feedback')})\<close>\<close>
  detail_bullets :: "element list option"
    \<comment> \<open>\<open>soup.find('div', {'id': 'detailBullets_feature_div'})\<close> and its
        \<open>find_all('li')\<close>\<close>

subsection \<open>The seller page\<close>

record seller_page =
  a_state_scripts :: "pystr option list"
    \<comment> \<open>\<open>script.string\<close> of each of \<open>soup.find_all('script', type='a-state')\<close>\<close>
  rating_year :: "element option option"
    \<comment> \<open>\<open>soup.find('div', id='rating-year')\<close> and in it
        \<open>find('span', class_='ratings-reviews')\<close>\<close>
  effective_rating_year :: "element option"
    \<comment> \<open>\<open>soup.find('span', id='effective-timeperiod-rating-year-description')\<close>\<close>
  rating_365d_num :: "element option option"
    \<comment> \<open>\<open>soup.find('div', id='rating-365d-num')\<close> and in it
        \<open>find('span', class_='ratings-reviews-count')\<close>\<close>
  percentFiveStar :: "element option"
    \<comment> \<open>\<open>soup.find('span', id='percentFiveStar')\<close>\<close>
  percent_positive :: "pystr option"
    \<comment> \<open>\<open>soup.find(string=re.compile(r'\d+%\s*positive'))\<close>\<close>

subsection \<open>Regular expressions, JSON, URLs and HTTP\<close>

text \<open>The patterns \<open>utils.py\<close> and \<open>scraper.py\<close> pass to \<open>re.search\<close> and \<open>re.sub\<close>.\<close>

datatype pattern =
    CurrencySymbol   \<comment> \<open>\<^verbatim>\<open>([^\d\s]+)\s*[\d\.,]+\<close>\<close>
  | PriceAmount      \<comment> \<open>\<^verbatim>\<open>([\d\.,]+)\<close>\<close>
  | RatingNumber     \<comment> \<open>\<^verbatim>\<open>(\d+\.?\d*)\<close>\<close>
  | SoldBy           \<comment> \<open>\<^verbatim>\<open>sold by\s*(.+?)(?:\s*and|$)\<close>, \<open>re.I\<close>\<close>
  | ShippedBy        \<comment> \<open>\<^verbatim>\<open>shipped by\s*(.+?)(?:\s*and|$)\<close>, \<open>re.I\<close>\<close>
  | Parenthetical    \<comment> \<open>\<^verbatim>\<open>\((.*?)\)\<close>\<close>
  | LeadingBy        \<comment> \<open>\<^verbatim>\<open>^\s*by\s*\<close>, \<open>re.I\<close>\<close>
  | OutOf            \<comment> \<open>\<^verbatim>\<open>(\d+\.?\d*)\s*out of\<close>\<close>
  | DigitGroup       \<comment> \<open>\<^verbatim>\<open>(\d+[\d,]*)\<close>\<close>
  | SoldByColon      \<comment> \<open>\<^verbatim>\<open>Sold by:\s*(.+)\<close>\<close>
  | Percent          \<comment> \<open>\<^verbatim>\<open>(\d+%)\<close>\<close>

record seller_response =
  seller_status_code :: nat
  seller_soup :: seller_page   \<comment> \<open>\<open>BeautifulSoup(response.content, 'html.parser')\<close>\<close>

record response =
  status_code :: nat
  soup_of :: page              \<comment> \<open>\<open>BeautifulSoup(response.content, 'html.parser')\<close>\<close>

record lib =
  re_search :: "pattern \<Rightarrow> pystr \<Rightarrow> pystr option"
    \<comment> \<open>\<open>re.search(pattern, s)\<close>: \<open>group(1)\<close> of the match, \<open>None\<close> when there is none\<close>
  re_sub :: "pattern \<Rightarrow> pystr \<Rightarrow> pystr"
    \<comment> \<open>\<open>re.sub(pattern, '', s)\<close>\<close>
  json_loads :: "pystr \<Rightarrow> json option"
    \<comment> \<open>\<open>json.loads(s)\<close>, \<open>None\<close> when it raises \<open>JSONDecodeError\<close>\<close>
  urljoin :: "pystr \<Rightarrow> pystr \<Rightarrow> pystr option"
    \<comment> \<open>\<open>urljoin(base, url)\<close>, \<open>None\<close> when it raises\<close>
  parse_qs_query :: "pystr \<Rightarrow> (pystr \<times> pystr list) list option"
    \<comment> \<open>\<open>parse_qs(urlparse(url).query)\<close>, \<open>None\<close> when either call raises\<close>
  get_seller_page :: "pystr \<Rightarrow> seller_response option"
    \<comment> \<open>\<open>requests.get\<close> of the seller's store URL, \<open>None\<close> when it raises\<close>
  get_page :: "pystr \<Rightarrow> response option"
    \<comment> \<open>\<open>requests.get\<close> of the product URL, \<open>None\<close> when it raises\<close>
  flt_of_int :: "int \<Rightarrow> pyfloat option"
    \<comment> \<open>the conversion of an \<open>int\<close> operand that meets a \<open>float\<close>, \<open>None\<close> when it
        raises \<open>OverflowError\<close>\<close>
  flt_add :: "pyfloat \<Rightarrow> pyfloat \<Rightarrow> pyfloat"
    \<comment> \<open>\<open>x + y\<close> on floats\<close>
  flt_mul :: "pyfloat \<Rightarrow> pyfloat \<Rightarrow> pyfloat"
    \<comment> \<open>\<open>x * y\<close> on floats\<close>
  flt_div :: "pyfloat \<Rightarrow> pyfloat \<Rightarrow> pyfloat"
    \<comment> \<open>\<open>x / y\<close> on floats, for \<open>y\<close> other than zero\<close>
  flt_str :: "pyfloat \<Rightarrow> pystr"
    \<comment> \<open>\<open>str(x)\<close> of a float\<close>

text \<open>
  The arithmetic and the printing of the floats of a rating fragment are fields of
  \<open>lib\<close> too: they are the runtime's, and no property below depends on what they
  compute. Python floats appear in the price conversion only through \<open>float(price)\<close>, one
  multiplication and the format \<^verbatim>\<open>.2f\<close>; the type \<open>'f\<close> stands for them.
  \<open>live_rate\<close> is what the body of the \<open>try\<close> in \<open>get_live_exchange_rate\<close> computes from
  the reply of the exchange-rate API, \<open>None\<close> when anything in it raises.
\<close>

record 'f float_lib =
  float_of_str :: "pystr \<Rightarrow> 'f option"
    \<comment> \<open>\<open>float(s)\<close>, \<open>None\<close> when it raises \<open>ValueError\<close>\<close>
  float_mul :: "'f \<Rightarrow> 'f \<Rightarrow> 'f"
  format_2f :: "'f \<Rightarrow> pystr"
    \<comment> \<open>\<^verbatim>\<open>f"{x:.2f}"\<close>\<close>
  live_rate :: "'f option"
  DEFAULT_EXCHANGE_RATE :: 'f
    \<comment> \<open>\<open>config.DEFAULT_EXCHANGE_RATE = 0.00359\<close>\<close>

section \<open>utils.py\<close>

text \<open>
  \<^verbatim>\<open>
  def extract_currency(price_text):
      currency_match = re.search(r'([^\d\s]+)\s*[\d\.,]+', price_text)
      currency_symbol = currency_match.group(1).strip() if currency_match else "$"
      price_match = re.search(r'([\d\.,]+)', price_text)
      price = price_match.group(1).replace(',', '') if price_match else "Not found"
      return currency_symbol, price
  \<close>
\<close>

definition extract_currency :: "lib \<Rightarrow> pystr \<Rightarrow> pystr \<times> pystr" where
  "extract_currency L price_text =
     (let currency_symbol =
            (case re_search L CurrencySymbol price_text of
               Some g \<Rightarrow> strip g
             | None \<Rightarrow> str ''$'');
          price =
            (case re_search L PriceAmount price_text of
               Some g \<Rightarrow> replace_all (str '','') [] g
             | None \<Rightarrow> NOT_FOUND)
      in (currency_symbol, price))"

text \<open>
  \<^verbatim>\<open>
  def get_seller_id_from_url(url):
      try:
          parsed_url = urlparse(url)
          query_params = parse_qs(parsed_url.query)
          return query_params.get('seller', [None])[0]
      except:
          return None
  \<close>
  The result is a string or Python's \<open>None\<close>: \<open>None\<close> when the URL has no \<open>seller\<close>
  parameter (the default \<open>[None]\<close>) and when anything raises.
\<close>

definition get_seller_id_from_url :: "lib \<Rightarrow> pystr \<Rightarrow> pystr option" where
  "get_seller_id_from_url L url =
     (case parse_qs_query L url of
        None \<Rightarrow> None
      | Some query_params \<Rightarrow>
          (case map_of query_params (str ''seller'') of
             None \<Rightarrow> None
           | Some [] \<Rightarrow> None
           | Some (v # vs) \<Rightarrow> Some v))"

text \<open>
  \<^verbatim>\<open>
  def clean_seller_name(name):
      if not name or name == "Not found":
          return name
      name = re.sub(r'\((.*?)\)', '', name).strip()
      name = re.sub(r'^\s*by\s*', '', name, flags=re.I).strip()
      if len(name) > 100:
          name = name[:100] + "..."
      return name
  \<close>
\<close>

definition clean_seller_name :: "lib \<Rightarrow> pystr \<Rightarrow> pystr" where
  "clean_seller_name L name =
     (if name = [] \<or> name = NOT_FOUND then name
      else
        let name1 = strip (re_sub L Parenthetical name);
            name2 = strip (re_sub L LeadingBy name1)
        in if length name2 > 100 then take 100 name2 @ str ''...'' else name2)"

text \<open>
  \<^verbatim>\<open>
  def get_live_exchange_rate():
      try:
          response = requests.get(EXCHANGE_RATE_API, timeout=5)
          data = response.json()
          pkr_per_usd = data['rates']['PKR']
          usd_per_pkr = 1 / pkr_per_usd
          return usd_per_pkr
      except:
          return DEFAULT_EXCHANGE_RATE
  \<close>
\<close>

definition get_live_exchange_rate :: "'f float_lib \<Rightarrow> 'f" where
  "get_live_exchange_rate F =
     (case live_rate F of Some usd_per_pkr \<Rightarrow> usd_per_pkr | None \<Rightarrow> DEFAULT_EXCHANGE_RATE F)"

section \<open>config.py\<close>

definition BASE_URL :: pystr where
  "BASE_URL = str ''https://www.amazon.com''"

definition MAX_IMAGES :: nat where
  "MAX_IMAGES = 10"

section \<open>models.py\<close>

text \<open>
  \<open>SellerInfo.__init__\<close> sets the twelve text fields to \<^verbatim>\<open>"Not found"\<close> and the two flags
  to \<open>False\<close>. \<open>seller_id\<close> is the one field the scraper assigns a value that may be
  Python's \<open>None\<close> (the result of \<open>get_seller_id_from_url\<close>), so it is an option here;
  every other text field only ever receives a \<open>str\<close>.
\<close>

record SellerInfo =
  seller_name :: pystr
  seller_store_url :: pystr
  seller_rating :: pystr
  seller_reviews :: pystr
  seller_since :: pystr
  positive_feedback :: pystr
  shipped_by :: pystr
  sold_by :: pystr
  seller_description :: pystr
  seller_id :: "pystr option"
  is_amazon :: bool
  is_fulfilled_by_amazon :: bool
  lifetime_rating :: pystr
  lifetime_reviews :: pystr

definition SellerInfo_init :: SellerInfo where
  "SellerInfo_init =
     \<lparr> seller_name = NOT_FOUND,
       seller_store_url = NOT_FOUND,
       seller_rating = NOT_FOUND,
       seller_reviews = NOT_FOUND,
       seller_since = NOT_FOUND,
       positive_feedback = NOT_FOUND,
       shipped_by = NOT_FOUND,
       sold_by = NOT_FOUND,
       seller_description = NOT_FOUND,
       seller_id = Some NOT_FOUND,
       is_amazon = False,
       is_fulfilled_by_amazon = False,
       lifetime_rating = NOT_FOUND,
       lifetime_reviews = NOT_FOUND \<rparr>"

record Product =
  title :: pystr
  brand :: pystr
  price :: pystr
  rating :: pystr
  reviews :: pystr
  description :: pystr
  images :: "pystr list"
  image_count :: nat
  seller_details :: SellerInfo

text \<open>\<open>Product.__init__\<close>: \<open>image_count\<close> is \<open>len(images)\<close>.\<close>

definition Product_init ::
  "pystr \<Rightarrow> pystr \<Rightarrow> pystr \<Rightarrow> pystr \<Rightarrow> pystr \<Rightarrow> pystr \<Rightarrow> pystr list \<Rightarrow> SellerInfo \<Rightarrow> Product" where
  "Product_init title' brand' price' rating' reviews' description' images' seller_info =
     \<lparr> title = title', brand = brand', price = price', rating = rating', reviews = reviews',
       description = description', images = images', image_count = length images',
       seller_details = seller_info \<rparr>"

text \<open>
  \<open>Product.display_seller_details\<close> and \<open>Product.display\<close> print lines; the model returns
  the arguments of the \<open>print\<close> calls in order. \<open>nl\<close> is the newline some of them start
  with. The name and the store URL are printed without a test; each of the other nine
  lines is printed when its field differs from \<^verbatim>\<open>"Not found"\<close>.
\<close>

definition nl :: pystr where
  "nl = [10]"

definition line_if :: "bool \<Rightarrow> pystr \<Rightarrow> pystr list" where
  "line_if b l = (if b then [l] else [])"

definition display_seller_details :: "Product \<Rightarrow> pystr list" where
  "display_seller_details self =
     (let sd = seller_details self in
      [nl @ str '' Seller Details:'',
       str ''  Seller Name: '' @ seller_name sd,
       str ''  Seller Store URL: '' @ seller_store_url sd,
       nl @ str ''  12-Month Performance:'']
      @ line_if (seller_rating sd \<noteq> NOT_FOUND)
          (str ''    Seller Rating: '' @ seller_rating sd @ str ''/5'')
      @ line_if (seller_reviews sd \<noteq> NOT_FOUND)
          (str ''    Seller Reviews: '' @ seller_reviews sd)
      @ [nl @ str ''  Lifetime Performance:'']
      @ line_if (lifetime_rating sd \<noteq> NOT_FOUND)
          (str ''    Lifetime Rating: '' @ lifetime_rating sd @ str ''/5'')
      @ line_if (lifetime_reviews sd \<noteq> NOT_FOUND)
          (str ''    Lifetime Reviews: '' @ lifetime_reviews sd)
      @ line_if (seller_since sd \<noteq> NOT_FOUND)
          (nl @ str ''  Seller Since: '' @ seller_since sd)
      @ line_if (positive_feedback sd \<noteq> NOT_FOUND)
          (str ''  Positive Feedback: '' @ positive_feedback sd)
      @ line_if (shipped_by sd \<noteq> NOT_FOUND)
          (str ''  Shipped By: '' @ shipped_by sd)
      @ line_if (sold_by sd \<noteq> NOT_FOUND)
          (str ''  Sold By: '' @ sold_by sd)
      @ line_if (seller_description sd \<noteq> NOT_FOUND)
          (str ''  Seller Description: '' @ take 100 (seller_description sd) @ str ''...''))"

definition display :: "Product \<Rightarrow> pystr list" where
  "display self =
     [nl @ str '' Successfully scraped!'',
      str ''Title: '' @ take 50 (title self) @ str ''...'',
      str ''Brand: '' @ brand self,
      str ''Price: '' @ price self,
      str ''Rating: '' @ rating self,
      str ''Reviews: '' @ reviews self,
      str ''Images: '' @ str_int (int (image_count self)) @ str '' found'']
     @ display_seller_details self"

section \<open>scraper.py: the field extractors\<close>

definition extract_title :: "page \<Rightarrow> pystr" where
  "extract_title soup =
     (case productTitle soup of
        Some title_elem \<Rightarrow> clean_text (Some (get_text title_elem))
      | None \<Rightarrow> NOT_FOUND)"

definition extract_brand :: "page \<Rightarrow> pystr" where
  "extract_brand soup =
     (case bylineInfo soup of
        Some brand_elem \<Rightarrow> clean_text (Some (get_text brand_elem))
      | None \<Rightarrow> NOT_FOUND)"

text \<open>
  \<^verbatim>\<open>
  def _handle_currency_conversion(self, price, currency_symbol):
      if price != "Not found" and currency_symbol in ["PKR", "\<open>rupee sign\<close>", "Rs"]:
          try:
              pkr_to_usd_rate = get_live_exchange_rate()
              price_float = float(price)
              usd_price = price_float * pkr_to_usd_rate
              price = f"{usd_price:.2f}"
              currency_symbol = "$"
          except:
              pass
      return price, currency_symbol
  \<close>
  The rupee sign is the code point 8360. Of the statements in the \<open>try\<close> only
  \<open>float(price)\<close> can raise (\<open>get_live_exchange_rate\<close> catches everything itself), and it
  comes before both assignments.
\<close>

definition non_usd_symbols :: "pystr list" where
  "non_usd_symbols = [str ''PKR'', [8360], str ''Rs'']"

definition handle_currency_conversion :: "'f float_lib \<Rightarrow> pystr \<Rightarrow> pystr \<Rightarrow> pystr \<times> pystr" where
  "handle_currency_conversion F price' currency_symbol =
     (if price' \<noteq> NOT_FOUND \<and> currency_symbol \<in> set non_usd_symbols then
        (let pkr_to_usd_rate = get_live_exchange_rate F in
         case float_of_str F price' of
           None \<Rightarrow> (price', currency_symbol)
         | Some price_float \<Rightarrow>
             (format_2f F (float_mul F price_float pkr_to_usd_rate), str ''$''))
      else (price', currency_symbol))"

text \<open>
  \<open>_extract_price\<close>: the hidden price first, then the price built from its whole and
  fraction parts, then \<open>("Not found", "$")\<close>.
\<close>

definition price_from_hidden :: "lib \<Rightarrow> 'f float_lib \<Rightarrow> page \<Rightarrow> (pystr \<times> pystr) option" where
  "price_from_hidden L F soup =
     (case price_div soup of
        Some (Some hidden_price) \<Rightarrow>
          (let (currency_symbol, price') = extract_currency L (get_text_strip hidden_price)
           in if price' \<noteq> NOT_FOUND
              then Some (handle_currency_conversion F price' currency_symbol)
              else None)
      | _ \<Rightarrow> None)"

definition price_from_parts :: "'f float_lib \<Rightarrow> page \<Rightarrow> (pystr \<times> pystr) option" where
  "price_from_parts F soup =
     (case main_price soup of
        None \<Rightarrow> None
      | Some mp \<Rightarrow>
          (let currency_symbol =
                 (case price_symbol mp of
                    Some currency_elem \<Rightarrow> get_text_strip currency_elem
                  | None \<Rightarrow> str ''$'')
           in case (price_whole mp, price_fraction mp) of
                (Some whole_part, Some fraction_part) \<Rightarrow>
                  (let whole0 = replace_all (str '','') [] (get_text_strip whole_part);
                       whole = (if contains (str ''.'') whole0
                                then replace_all (str ''.'') [] whole0 else whole0);
                       fraction = get_text_strip fraction_part
                   in Some (handle_currency_conversion F (whole @ str ''.'' @ fraction)
                              currency_symbol))
              | _ \<Rightarrow> None))"

definition extract_price :: "lib \<Rightarrow> 'f float_lib \<Rightarrow> page \<Rightarrow> pystr \<times> pystr" where
  "extract_price L F soup =
     (case price_from_hidden L F soup of
        Some r \<Rightarrow> r
      | None \<Rightarrow>
          (case price_from_parts F soup of
             Some r \<Rightarrow> r
           | None \<Rightarrow> (NOT_FOUND, str ''$'')))"

definition extract_rating :: "lib \<Rightarrow> page \<Rightarrow> pystr" where
  "extract_rating L soup =
     (let rating_text =
            (case icon_alt soup of
               Some rating_elem \<Rightarrow> get_text_strip rating_elem
             | None \<Rightarrow> NOT_FOUND)
      in case re_search L RatingNumber rating_text of
           Some g \<Rightarrow> g
         | None \<Rightarrow> NOT_FOUND)"

definition extract_reviews :: "page \<Rightarrow> pystr" where
  "extract_reviews soup =
     (case acrCustomerReviewText soup of
        Some reviews_elem \<Rightarrow> clean_text (Some (get_text reviews_elem))
      | None \<Rightarrow> NOT_FOUND)"

definition extract_description :: "page \<Rightarrow> pystr" where
  "extract_description soup =
     (let description' =
            (case productDescription soup of
               Some desc_elem \<Rightarrow> get_text_strip desc_elem
             | None \<Rightarrow> NOT_FOUND)
      in take 500 description')"

subsection \<open>Images\<close>

text \<open>
  \<^verbatim>\<open>
  for selector in image_selectors:
      img_elements = soup.select(selector)
      for img in img_elements:
          src = img.get('src') or img.get('data-src') or img.get('data-old-hires')
          if not src and 'data-a-dynamic-image' in img.attrs:
              try:
                  img_data = json.loads(img['data-a-dynamic-image'])
                  if img_data:
                      src = list(img_data.keys())[0]
              except:
                  pass
          if src and 'http' in src and src not in images:
              if '._SL' in src:
                  base_url = src.split('._SL')[0]
                  high_res = f"{base_url}._SL1500_"
                  images.append(high_res)
              else:
                  images.append(src)
  return list(dict.fromkeys(images))
  \<close>
  \<open>py_or\<close> is \<open>or\<close> on values that are a string or \<open>None\<close>: the first operand when it
  is truthy, else the second. \<open>.keys()\<close> exists on a dict only; on any other truthy JSON
  value it raises and \<open>src\<close> stays as it was. \<open>dict_fromkeys\<close> is
  \<open>list(dict.fromkeys(images))\<close>: each key is inserted when it is first seen.
\<close>

definition truthy_str :: "pystr option \<Rightarrow> bool" where
  "truthy_str v \<longleftrightarrow> (case v of None \<Rightarrow> False | Some s \<Rightarrow> s \<noteq> [])"

definition py_or :: "pystr option \<Rightarrow> pystr option \<Rightarrow> pystr option" where
  "py_or a b = (if truthy_str a then a else b)"

definition image_selectors :: "selector list" where
  "image_selectors = [LandingImage, DataOldHires, DynamicImageClass, ImgDynamicImage, ImgTagWrapper]"

definition resolve_src :: "lib \<Rightarrow> element \<Rightarrow> pystr option" where
  "resolve_src L img =
     (let src = py_or (py_or (get_attr img ''src'') (get_attr img ''data-src''))
                      (get_attr img ''data-old-hires'')
      in if \<not> truthy_str src \<and> has_attr img ''data-a-dynamic-image'' then
           (case get_attr img ''data-a-dynamic-image'' of
              None \<Rightarrow> src
            | Some a \<Rightarrow>
                (case json_loads L a of
                   Some (JDict ((k, v) # kvs)) \<Rightarrow> Some k
                 | _ \<Rightarrow> src))
         else src)"

definition high_res :: "pystr \<Rightarrow> pystr" where
  "high_res src =
     (if contains (str ''._SL'') src
      then before_first (str ''._SL'') src @ str ''._SL1500_''
      else src)"

definition accepted :: "pystr option \<Rightarrow> bool" where
  "accepted src \<longleftrightarrow> (case src of None \<Rightarrow> False | Some s \<Rightarrow> s \<noteq> [] \<and> contains (str ''http'') s)"

definition add_image :: "lib \<Rightarrow> pystr list \<Rightarrow> element \<Rightarrow> pystr list" where
  "add_image L images' img =
     (case resolve_src L img of
        None \<Rightarrow> images'
      | Some src \<Rightarrow>
          if src \<noteq> [] \<and> contains (str ''http'') src \<and> src \<notin> set images'
          then images' @ [high_res src]
          else images')"

definition add_selector :: "lib \<Rightarrow> page \<Rightarrow> pystr list \<Rightarrow> selector \<Rightarrow> pystr list" where
  "add_selector L soup images' sel = foldl (add_image L) images' (select soup sel)"

definition dict_fromkeys :: "'a list \<Rightarrow> 'a list" where
  "dict_fromkeys xs = foldl (\<lambda>keys x. if x \<in> set keys then keys else keys @ [x]) [] xs"

definition extract_images :: "lib \<Rightarrow> page \<Rightarrow> pystr list" where
  "extract_images L soup = dict_fromkeys (foldl (add_selector L soup) [] image_selectors)"

section \<open>scraper.py: the seller page\<close>

subsection \<open>Rating fragments\<close>

text \<open>
  \<open>script_data_list\<close> holds the parsed content of every \<open>a-state\<close> script whose text
  contains both \<open>ratingCount\<close> and \<open>star5\<close> and is valid JSON. (The code pairs each
  fragment with its position, which it only prints.)
\<close>

definition parse_script :: "lib \<Rightarrow> pystr option \<Rightarrow> json option" where
  "parse_script L script_string =
     (case script_string of
        None \<Rightarrow> None
      | Some t \<Rightarrow>
          if t \<noteq> [] then
            (let script_content = strip t in
             if contains (str ''ratingCount'') script_content \<and> contains (str ''star5'') script_content
             then json_loads L script_content
             else None)
          else None)"

definition script_data_list :: "lib \<Rightarrow> seller_page \<Rightarrow> json list" where
  "script_data_list L soup = List.map_filter (parse_script L) (a_state_scripts soup)"

text \<open>
  \<open>data.get(key, 0)\<close> exists on a dict only (\<open>AttributeError\<close> otherwise). The values read
  are compared with and multiplied by integers: an \<open>int\<close>, a \<open>bool\<close> (\<open>True\<close> is 1) or a
  \<open>float\<close> takes part as a number, every other value ends in a \<open>TypeError\<close> before the
  code assigns anything from it. \<open>None\<close> is the raised exception in both functions.
\<close>

definition is_dict :: "json \<Rightarrow> bool" where
  "is_dict d \<longleftrightarrow> (case d of JDict kvs \<Rightarrow> True | _ \<Rightarrow> False)"

definition has_key :: "json \<Rightarrow> string \<Rightarrow> bool" where
  "has_key d k \<longleftrightarrow> (case d of JDict kvs \<Rightarrow> map_of kvs (str k) \<noteq> None | _ \<Rightarrow> False)"

definition dict_get :: "json \<Rightarrow> string \<Rightarrow> json option" where
  "dict_get d k =
     (case d of
        JDict kvs \<Rightarrow> Some (case map_of kvs (str k) of Some v \<Rightarrow> v | None \<Rightarrow> JInt 0)
      | _ \<Rightarrow> None)"

definition as_number :: "json \<Rightarrow> pynum option" where
  "as_number v =
     (case v of
        JInt n \<Rightarrow> Some (PInt n)
      | JBool b \<Rightarrow> Some (PInt (if b then 1 else 0))
      | JFloat f \<Rightarrow> Some (PFloat f)
      | _ \<Rightarrow> None)"

definition get_number :: "json \<Rightarrow> string \<Rightarrow> pynum option" where
  "get_number d k = (case dict_get d k of None \<Rightarrow> None | Some v \<Rightarrow> as_number v)"

definition ratingCount :: "json \<Rightarrow> pynum option" where
  "ratingCount d = get_number d ''ratingCount''"

definition truthy_json :: "json \<Rightarrow> bool" where
  "truthy_json v \<longleftrightarrow>
     (case v of
        JNull \<Rightarrow> False
      | JBool b \<Rightarrow> b
      | JInt n \<Rightarrow> n \<noteq> 0
      | JFloat f \<Rightarrow> f \<noteq> Finite False 0 \<and> f \<noteq> Finite True 0
      | JStr s \<Rightarrow> s \<noteq> []
      | JList xs \<Rightarrow> xs \<noteq> []
      | JDict kvs \<Rightarrow> kvs \<noteq> [])"

text \<open>
  \<^verbatim>\<open>
  twelve_month_data = None
  lifetime_data = None
  for script_num, data in script_data_list:
      rating_count = data.get('ratingCount', 0)
      star5 = data.get('star5', 0)
  if not twelve_month_data and script_data_list:
      for script_num, data in script_data_list:
          rating_count = data.get('ratingCount', 0)
          if 400 <= rating_count <= 500:
              twelve_month_data = data
              break
  if not lifetime_data and script_data_list:
      max_data = max(script_data_list, key=lambda x: x[1].get('ratingCount', 0))
      if max_data[1].get('ratingCount', 0) > 500:
          lifetime_data = max_data[1]
  \<close>
  \<open>find_twelve_month\<close> is the loop with the \<open>break\<close>. \<open>py_max_by\<close> is \<open>max\<close> with a key: it
  keeps the first item and replaces it by a later one only when that one's key is
  greater (\<open>num_lt\<close>, which is false when either key is NaN). \<open>count_of\<close> reads the key of
  a fragment whose \<open>ratingCount\<close> is known to be a number.
\<close>

fun find_twelve_month :: "json list \<Rightarrow> json option option" where
  "find_twelve_month [] = Some None"
| "find_twelve_month (data # rest) =
     (case ratingCount data of
        None \<Rightarrow> None
      | Some rating_count \<Rightarrow>
          if num_le (PInt 400) rating_count \<and> num_le rating_count (PInt 500) then Some (Some data)
          else find_twelve_month rest)"

fun py_max_by :: "('a \<Rightarrow> pynum) \<Rightarrow> 'a \<Rightarrow> 'a list \<Rightarrow> 'a" where
  "py_max_by key best [] = best"
| "py_max_by key best (x # xs) = py_max_by key (if num_lt (key best) (key x) then x else best) xs"

definition count_of :: "json \<Rightarrow> pynum" where
  "count_of d = (case ratingCount d of Some n \<Rightarrow> n | None \<Rightarrow> PInt 0)"

definition find_lifetime :: "json list \<Rightarrow> json option option" where
  "find_lifetime fragments =
     (case fragments of
        [] \<Rightarrow> Some None
      | d # ds \<Rightarrow>
          if \<exists>x \<in> set fragments. ratingCount x = None then None
          else
            (let max_data = py_max_by count_of d ds in
             if num_lt (PInt 500) (count_of max_data) then Some (Some max_data) else Some None))"

definition select_fragments :: "json list \<Rightarrow> (json option \<times> json option) option" where
  "select_fragments fragments =
     (if \<exists>x \<in> set fragments. \<not> is_dict x then None
      else
        case find_twelve_month fragments of
          None \<Rightarrow> None
        | Some twelve_month_data \<Rightarrow>
            (case find_lifetime fragments of
               None \<Rightarrow> None
             | Some lifetime_data \<Rightarrow> Some (twelve_month_data, lifetime_data)))"

subsection \<open>The weighted rating\<close>

text \<open>
  \<open>avg_rating = weighted_sum / total_percent\<close> on two Python integers gives the binary64
  number nearest to the quotient (ties to even), or \<open>OverflowError\<close>, or
  \<open>ZeroDivisionError\<close> (both \<open>None\<close> in \<open>int_true_div\<close>);
  \<^verbatim>\<open>f"{avg_rating:.1f}"\<close> prints the decimal with one fractional digit nearest to a
  finite float (ties to even). Both are exact operations on rationals:
  \<open>to_binary64 q\<close> is the binary64 value of a rational \<open>q \<ge> 0\<close>, with 53 significant bits,
  the least exponent -1022 and \<open>None\<close> for a result of \<open>2^1024\<close> or more.
\<close>

definition round_half_even :: "rat \<Rightarrow> int" where
  "round_half_even x =
     (let f = \<lfloor>x\<rfloor>; r = x - of_int f
      in if r < 1 / 2 then f else if 1 / 2 < r then f + 1 else if even f then f else f + 1)"

definition floor_log2 :: "rat \<Rightarrow> int" where
  "floor_log2 q = (if 1 \<le> q then bitlen \<lfloor>q\<rfloor> - 1 else - bitlen (\<lceil>1 / q\<rceil> - 1))"

definition to_binary64 :: "rat \<Rightarrow> rat option" where
  "to_binary64 q =
     (if q = 0 then Some 0
      else
        let e = max (floor_log2 q) (- 1022);
            ulp = power_int 2 (e - 52);
            d = of_int (round_half_even (q / ulp)) * ulp
        in if power_int 2 1024 \<le> d then None else Some d)"

definition int_true_div :: "int \<Rightarrow> int \<Rightarrow> pyfloat option" where
  "int_true_div a b =
     (if b = 0 then None
      else
        case to_binary64 \<bar>of_int a / of_int b\<bar> of
          None \<Rightarrow> None
        | Some d \<Rightarrow> Some (Finite ((a < 0) \<noteq> (b < 0)) d))"

definition format_1f :: "pyfloat \<Rightarrow> pystr" where
  "format_1f x =
     (case x of
        Finite neg m \<Rightarrow>
          (let n = round_half_even (m * 10)
           in (if neg then str ''-'' else []) @ str_int (n div 10) @ str ''.'' @ str_int (n mod 10))
      | Infinity neg \<Rightarrow> (if neg then str ''-inf'' else str ''inf'')
      | NaN \<Rightarrow> str ''nan'')"

text \<open>
  Arithmetic on two numbers: exact on two integers; when a float takes part, the integer
  operand is converted and the operation is the float one. \<open>None\<close> is the
  \<open>OverflowError\<close> of a conversion or of the division of two integers.
\<close>

definition to_float :: "lib \<Rightarrow> pynum \<Rightarrow> pyfloat option" where
  "to_float L x = (case x of PInt n \<Rightarrow> flt_of_int L n | PFloat f \<Rightarrow> Some f)"

definition float_op ::
  "lib \<Rightarrow> (pyfloat \<Rightarrow> pyfloat \<Rightarrow> pyfloat) \<Rightarrow> pynum \<Rightarrow> pynum \<Rightarrow> pynum option" where
  "float_op L f x y =
     (case (to_float L x, to_float L y) of
        (Some a, Some b) \<Rightarrow> Some (PFloat (f a b))
      | _ \<Rightarrow> None)"

definition num_add :: "lib \<Rightarrow> pynum \<Rightarrow> pynum \<Rightarrow> pynum option" where
  "num_add L x y =
     (case (x, y) of
        (PInt a, PInt b) \<Rightarrow> Some (PInt (a + b))
      | _ \<Rightarrow> float_op L (flt_add L) x y)"

definition num_mul :: "lib \<Rightarrow> pynum \<Rightarrow> pynum \<Rightarrow> pynum option" where
  "num_mul L x y =
     (case (x, y) of
        (PInt a, PInt b) \<Rightarrow> Some (PInt (a * b))
      | _ \<Rightarrow> float_op L (flt_mul L) x y)"

definition num_div :: "lib \<Rightarrow> pynum \<Rightarrow> pynum \<Rightarrow> pyfloat option" where
  "num_div L x y =
     (case (x, y) of
        (PInt a, PInt b) \<Rightarrow> int_true_div a b
      | _ \<Rightarrow>
          (case (to_float L x, to_float L y) of
             (Some a, Some b) \<Rightarrow> Some (flt_div L a b)
           | _ \<Rightarrow> None))"

text \<open>
  \<^verbatim>\<open>
  star5_percent = data.get('star5', 0)
  ...
  weighted_sum = (star5_percent * 5 + star4_percent * 4 + star3_percent * 3 +
                  star2_percent * 2 + star1_percent * 1)
  total_percent = (star5_percent + star4_percent + star3_percent + star2_percent + star1_percent)
  if total_percent > 0:
      avg_rating = weighted_sum / total_percent
      seller_info.seller_rating = f"{avg_rating:.1f}"
  \<close>
  \<open>sum_nums\<close> adds from the left, as Python does. \<open>star_sums\<close> is
  \<open>(weighted_sum, total_percent)\<close>, \<open>None\<close> for the \<open>TypeError\<close> of a value that is not
  a number and for an \<open>OverflowError\<close>. \<open>weighted_rating\<close> is the text assigned:
  \<open>Inr None\<close> when the assignment is skipped, \<open>Inl ()\<close> when an exception is raised.
\<close>

fun sum_nums :: "lib \<Rightarrow> pynum option \<Rightarrow> pynum option list \<Rightarrow> pynum option" where
  "sum_nums L acc [] = acc"
| "sum_nums L acc (x # xs) =
     sum_nums L (case (acc, x) of (Some a, Some b) \<Rightarrow> num_add L a b | _ \<Rightarrow> None) xs"

definition star_sums :: "lib \<Rightarrow> json \<Rightarrow> (pynum \<times> pynum) option" where
  "star_sums L data =
     (case (get_number data ''star5'', get_number data ''star4'', get_number data ''star3'',
            get_number data ''star2'', get_number data ''star1'') of
        (Some star5_percent, Some star4_percent, Some star3_percent,
         Some star2_percent, Some star1_percent) \<Rightarrow>
          (case (sum_nums L (num_mul L star5_percent (PInt 5))
                   [num_mul L star4_percent (PInt 4), num_mul L star3_percent (PInt 3),
                    num_mul L star2_percent (PInt 2), num_mul L star1_percent (PInt 1)],
                 sum_nums L (Some star5_percent)
                   [Some star4_percent, Some star3_percent, Some star2_percent,
                    Some star1_percent]) of
             (Some weighted_sum, Some total_percent) \<Rightarrow> Some (weighted_sum, total_percent)
           | _ \<Rightarrow> None)
      | _ \<Rightarrow> None)"

definition weighted_rating :: "lib \<Rightarrow> json \<Rightarrow> unit + pystr option" where
  "weighted_rating L data =
     (case star_sums L data of
        None \<Rightarrow> Inl ()
      | Some (weighted_sum, total_percent) \<Rightarrow>
          if num_lt (PInt 0) total_percent then
            (case num_div L weighted_sum total_percent of
               None \<Rightarrow> Inl ()
             | Some avg_rating \<Rightarrow> Inr (Some (format_1f avg_rating)))
          else Inr None)"

subsection \<open>\<open>_scrape_seller_page\<close>\<close>

text \<open>
  The seller record is mutated in place and the whole body is inside one \<open>try\<close>: when a
  statement raises, the fields assigned before it keep their new values. A step that can
  raise returns \<open>Inl\<close> of the record as it is at the raise, \<open>Inr\<close> of the record when it
  completes.

  \<open>count_text\<close> is \<open>str(data['ratingCount'])\<close>, guarded by \<open>'ratingCount' in data\<close>. The
  count of a selected fragment is an \<open>int\<close> or a \<open>float\<close> (it lies in [400, 500] or
  above 500, which no \<open>bool\<close> does): the \<open>str\<close> of an \<open>int\<close> is its decimal form.
\<close>

definition count_text :: "lib \<Rightarrow> json \<Rightarrow> pystr option" where
  "count_text L data =
     (case data of
        JDict kvs \<Rightarrow>
          (case map_of kvs (str ''ratingCount'') of
             Some (JInt n) \<Rightarrow> Some (str_int n)
           | Some (JFloat f) \<Rightarrow> Some (flt_str L f)
           | _ \<Rightarrow> None)
      | _ \<Rightarrow> None)"

definition process_twelve_month :: "lib \<Rightarrow> json option \<Rightarrow> SellerInfo \<Rightarrow> SellerInfo + SellerInfo" where
  "process_twelve_month L twelve_month_data seller_info =
     (case twelve_month_data of
        None \<Rightarrow> Inr seller_info
      | Some data \<Rightarrow>
          if truthy_json data then
            (let s1 = (case count_text L data of
                         Some t \<Rightarrow> seller_info\<lparr>seller_reviews := t\<rparr>
                       | None \<Rightarrow> seller_info)
             in if has_key data ''star5'' then
                  (case weighted_rating L data of
                     Inl u \<Rightarrow> Inl s1
                   | Inr None \<Rightarrow> Inr s1
                   | Inr (Some r) \<Rightarrow> Inr (s1\<lparr>seller_rating := r\<rparr>))
                else Inr s1)
          else Inr seller_info)"

definition process_lifetime :: "lib \<Rightarrow> json option \<Rightarrow> SellerInfo \<Rightarrow> SellerInfo + SellerInfo" where
  "process_lifetime L lifetime_data seller_info =
     (case lifetime_data of
        None \<Rightarrow> Inr seller_info
      | Some data \<Rightarrow>
          if truthy_json data then
            (let s1 = (case count_text L data of
                         Some t \<Rightarrow> seller_info\<lparr>lifetime_reviews := t\<rparr>
                       | None \<Rightarrow> seller_info)
             in if has_key data ''star5'' then
                  (case weighted_rating L data of
                     Inl u \<Rightarrow> Inl s1
                   | Inr None \<Rightarrow> Inr s1
                   | Inr (Some r) \<Rightarrow> Inr (s1\<lparr>lifetime_rating := r\<rparr>))
                else Inr s1)
          else Inr seller_info)"

text \<open>
  The four steps after the fragments, in the order of the code:
  \<^verbatim>\<open>
  rating_year_div = soup.find('div', id='rating-year')
  if rating_year_div:
      rating_span = rating_year_div.find('span', class_='ratings-reviews')
      if rating_span:
          correct_rating = rating_span.get_text(strip=True)
          if correct_rating:
              seller_info.seller_rating = correct_rating

  if seller_info.seller_rating in ["4.9", "Not found"]:
      year_rating_span = soup.find('span', id='effective-timeperiod-rating-year-description')
      if year_rating_span:
          correct_rating = year_rating_span.get_text(strip=True)
          if correct_rating:
              seller_info.seller_rating = correct_rating

  if seller_info.seller_reviews == "Not found":
      rating_num_div = soup.find('div', id='rating-365d-num')
      if rating_num_div:
          count_span = rating_num_div.find('span', class_='ratings-reviews-count')
          if count_span:
              seller_info.seller_reviews = count_span.get_text(strip=True)

  five_star_percent = soup.find('span', id='percentFiveStar')
  if five_star_percent:
      seller_info.positive_feedback = five_star_percent.get_text(strip=True)
  elif not seller_info.positive_feedback:
      percentage_elem = soup.find(string=re.compile(r'\d+%\s*positive'))
      if percentage_elem:
          percent_match = re.search(r'(\d+%)', percentage_elem)
          if percent_match:
              seller_info.positive_feedback = percent_match.group(1)
  \<close>
\<close>

definition override_rating_year :: "seller_page \<Rightarrow> SellerInfo \<Rightarrow> SellerInfo" where
  "override_rating_year soup seller_info =
     (case rating_year soup of
        Some (Some rating_span) \<Rightarrow>
          (let correct_rating = get_text_strip rating_span
           in if correct_rating \<noteq> [] then seller_info\<lparr>seller_rating := correct_rating\<rparr>
              else seller_info)
      | _ \<Rightarrow> seller_info)"

definition override_effective_period :: "seller_page \<Rightarrow> SellerInfo \<Rightarrow> SellerInfo" where
  "override_effective_period soup seller_info =
     (if seller_rating seller_info \<in> set [str ''4.9'', NOT_FOUND] then
        (case effective_rating_year soup of
           Some year_rating_span \<Rightarrow>
             (let correct_rating = get_text_strip year_rating_span
              in if correct_rating \<noteq> [] then seller_info\<lparr>seller_rating := correct_rating\<rparr>
                 else seller_info)
         | None \<Rightarrow> seller_info)
      else seller_info)"

definition fill_seller_reviews :: "seller_page \<Rightarrow> SellerInfo \<Rightarrow> SellerInfo" where
  "fill_seller_reviews soup seller_info =
     (if seller_reviews seller_info = NOT_FOUND then
        (case rating_365d_num soup of
           Some (Some count_span) \<Rightarrow> seller_info\<lparr>seller_reviews := get_text_strip count_span\<rparr>
         | _ \<Rightarrow> seller_info)
      else seller_info)"

definition fill_positive_feedback :: "lib \<Rightarrow> seller_page \<Rightarrow> SellerInfo \<Rightarrow> SellerInfo" where
  "fill_positive_feedback L soup seller_info =
     (case percentFiveStar soup of
        Some five_star_percent \<Rightarrow>
          seller_info\<lparr>positive_feedback := get_text_strip five_star_percent\<rparr>
      | None \<Rightarrow>
          if positive_feedback seller_info = [] then
            (case percent_positive soup of
               Some percentage_elem \<Rightarrow>
                 (case re_search L Percent percentage_elem of
                    Some g \<Rightarrow> seller_info\<lparr>positive_feedback := g\<rparr>
                  | None \<Rightarrow> seller_info)
             | None \<Rightarrow> seller_info)
          else seller_info)"

definition dom_overrides :: "lib \<Rightarrow> seller_page \<Rightarrow> SellerInfo \<Rightarrow> SellerInfo" where
  "dom_overrides L soup seller_info =
     fill_positive_feedback L soup
       (fill_seller_reviews soup
          (override_effective_period soup
             (override_rating_year soup seller_info)))"

definition scrape_seller_page :: "lib \<Rightarrow> SellerInfo \<Rightarrow> SellerInfo" where
  "scrape_seller_page L seller_info =
     (case get_seller_page L (seller_store_url seller_info) of
        None \<Rightarrow> seller_info
      | Some response \<Rightarrow>
          if seller_status_code response = 200 then
            (let soup = seller_soup response in
             case select_fragments (script_data_list L soup) of
               None \<Rightarrow> seller_info
             | Some (twelve_month_data, lifetime_data) \<Rightarrow>
                 (case process_twelve_month L twelve_month_data seller_info of
                    Inl s \<Rightarrow> s
                  | Inr s1 \<Rightarrow>
                      (case process_lifetime L lifetime_data s1 of
                         Inl s \<Rightarrow> s
                       | Inr s2 \<Rightarrow> dom_overrides L soup s2)))
          else seller_info)"

section \<open>scraper.py: the seller extractor\<close>

text \<open>
  Stage by stage, in the order of \<open>_extract_seller_details\<close>. \<open>a or b or c\<close> on tags is
  the first tag found. Only \<open>urljoin\<close> can raise outside \<open>_scrape_seller_page\<close>; the
  \<open>except\<close> of \<open>_extract_seller_details\<close> then returns the record as it is.
\<close>

definition page_signals :: "page \<Rightarrow> SellerInfo \<Rightarrow> SellerInfo" where
  "page_signals soup seller_info =
     (let s1 = (if fba_elements soup \<noteq> [] then seller_info\<lparr>is_fulfilled_by_amazon := True\<rparr>
                else seller_info)
      in if ac_badge soup \<noteq> None then
           (if amazon_seller soup \<noteq> None then
              s1\<lparr>seller_name := str ''Amazon.com'', sold_by := str ''Amazon.com'',
                 shipped_by := str ''Amazon.com'', is_amazon := True\<rparr>
            else s1)
         else s1)"

definition first_found :: "element option \<Rightarrow> element option \<Rightarrow> element option" where
  "first_found a b = (case a of Some e \<Rightarrow> Some e | None \<Rightarrow> b)"

definition extract_seller_from_buybox :: "lib \<Rightarrow> page \<Rightarrow> SellerInfo \<Rightarrow> SellerInfo" where
  "extract_seller_from_buybox L soup seller_info =
     (case first_found (first_found (merchant_info soup) (seller_profile_div soup))
             (availability soup) of
        None \<Rightarrow> seller_info
      | Some seller_section \<Rightarrow>
          (let seller_text = get_text_sep_strip (str '' '') seller_section;
               s1 = (case re_search L SoldBy seller_text of
                       Some g \<Rightarrow>
                         (let seller_name' = strip (re_sub L Parenthetical (strip g))
                          in seller_info\<lparr>sold_by := seller_name', seller_name := seller_name',
                               is_amazon := contains (str ''amazon'') (lower seller_name')\<rparr>)
                     | None \<Rightarrow> seller_info)
           in case re_search L ShippedBy seller_text of
                Some g \<Rightarrow> s1\<lparr>shipped_by := strip g\<rparr>
              | None \<Rightarrow> s1))"

definition seller_link_name :: "lib \<Rightarrow> element \<Rightarrow> SellerInfo \<Rightarrow> SellerInfo" where
  "seller_link_name L link seller_info =
     (if get_text_strip link \<noteq> [] then
        (let seller_name' = strip (re_sub L LeadingBy (get_text_strip link))
         in if seller_name seller_info = NOT_FOUND
            then seller_info\<lparr>seller_name := seller_name', sold_by := seller_name'\<rparr>
            else seller_info)
      else seller_info)"

definition seller_link_url :: "lib \<Rightarrow> element \<Rightarrow> SellerInfo \<Rightarrow> SellerInfo + SellerInfo" where
  "seller_link_url L link seller_info =
     (case get_attr link ''href'' of
        None \<Rightarrow> Inr seller_info
      | Some href \<Rightarrow>
          (case urljoin L BASE_URL href of
             None \<Rightarrow> Inl seller_info
           | Some seller_url \<Rightarrow>
               Inr (seller_info\<lparr>seller_store_url := seller_url,
                                   seller_id := get_seller_id_from_url L seller_url\<rparr>)))"

definition store_link_name :: "element \<Rightarrow> SellerInfo \<Rightarrow> SellerInfo" where
  "store_link_name link seller_info =
     (let store_text = get_text_strip link in
      if contains (str ''Visit the'') store_text \<and> contains (str ''Store'') store_text then
        (let store_name =
               strip (replace_all (str ''Store'') [] (replace_all (str ''Visit the'') [] store_text))
         in if store_name \<noteq> [] \<and> seller_name seller_info = NOT_FOUND
            then seller_info\<lparr>seller_name := store_name\<rparr>
            else seller_info)
      else seller_info)"

definition store_link_url :: "lib \<Rightarrow> element \<Rightarrow> SellerInfo \<Rightarrow> SellerInfo + SellerInfo" where
  "store_link_url L link seller_info =
     (case get_attr link ''href'' of
        None \<Rightarrow> Inr seller_info
      | Some href \<Rightarrow>
          (case urljoin L BASE_URL href of
             None \<Rightarrow> Inl seller_info
           | Some store_url \<Rightarrow>
               if seller_store_url seller_info = NOT_FOUND
               then Inr (seller_info\<lparr>seller_store_url := store_url\<rparr>)
               else Inr seller_info))"

definition extract_seller_from_links :: "lib \<Rightarrow> page \<Rightarrow> SellerInfo \<Rightarrow> SellerInfo + SellerInfo" where
  "extract_seller_from_links L soup seller_info =
     (case (case seller_link soup of
              None \<Rightarrow> Inr seller_info
            | Some link \<Rightarrow> seller_link_url L link (seller_link_name L link seller_info)) of
        Inl s \<Rightarrow> Inl s
      | Inr s1 \<Rightarrow>
          (case bylineInfo soup of
             None \<Rightarrow> Inr s1
           | Some store_link \<Rightarrow> store_link_url L store_link (store_link_name store_link s1)))"

definition extract_seller_feedback :: "lib \<Rightarrow> page \<Rightarrow> SellerInfo \<Rightarrow> SellerInfo" where
  "extract_seller_feedback L soup seller_info =
     (case feedback_link soup of
        None \<Rightarrow> seller_info
      | Some link \<Rightarrow>
          (let feedback_text = get_text_strip link;
               s1 = (case re_search L OutOf feedback_text of
                       Some g \<Rightarrow> seller_info\<lparr>seller_rating := g\<rparr>
                     | None \<Rightarrow> seller_info)
           in case re_search L DigitGroup feedback_text of
                Some g \<Rightarrow> s1\<lparr>seller_reviews := g\<rparr>
              | None \<Rightarrow> s1))"

definition detail_bullet :: "lib \<Rightarrow> SellerInfo \<Rightarrow> element \<Rightarrow> SellerInfo" where
  "detail_bullet L seller_info bullet =
     (let text' = get_text_strip bullet in
      if contains (str ''Sold by:'') text' then
        (case re_search L SoldByColon text' of
           Some g \<Rightarrow>
             (let s1 = seller_info\<lparr>sold_by := strip g\<rparr>
              in if seller_name s1 = NOT_FOUND then s1\<lparr>seller_name := sold_by s1\<rparr> else s1)
         | None \<Rightarrow> seller_info)
      else seller_info)"

definition detail_bullets_stage :: "lib \<Rightarrow> page \<Rightarrow> SellerInfo \<Rightarrow> SellerInfo" where
  "detail_bullets_stage L soup seller_info =
     (case detail_bullets soup of
        None \<Rightarrow> seller_info
      | Some bullets \<Rightarrow> foldl (detail_bullet L) seller_info bullets)"

definition seller_page_stage :: "lib \<Rightarrow> SellerInfo \<Rightarrow> SellerInfo" where
  "seller_page_stage L seller_info =
     (if seller_store_url seller_info \<noteq> NOT_FOUND \<and> \<not> is_amazon seller_info
      then scrape_seller_page L seller_info
      else seller_info)"

definition clean_names :: "lib \<Rightarrow> SellerInfo \<Rightarrow> SellerInfo" where
  "clean_names L seller_info =
     (let s1 = seller_info\<lparr>seller_name := clean_seller_name L (seller_name seller_info)\<rparr>
      in s1\<lparr>sold_by := clean_seller_name L (sold_by s1)\<rparr>)"

definition extract_seller_details :: "lib \<Rightarrow> page \<Rightarrow> pystr \<Rightarrow> SellerInfo" where
  "extract_seller_details L soup product_url =
     (case extract_seller_from_links L soup
             (extract_seller_from_buybox L soup (page_signals soup SellerInfo_init)) of
        Inl s \<Rightarrow> s
      | Inr s \<Rightarrow>
          clean_names L
            (seller_page_stage L
               (detail_bullets_stage L soup
                  (extract_seller_feedback L soup s))))"

section \<open>scraper.py: \<open>scrape\<close>\<close>

text \<open>
  \<open>None\<close> is returned when the request raises or its status is not 200. No extractor
  lets an exception escape, so with status 200 a \<open>Product\<close> is returned.
\<close>

definition scrape :: "lib \<Rightarrow> 'f float_lib \<Rightarrow> pystr \<Rightarrow> Product option" where
  "scrape L F url =
     (case get_page L url of
        None \<Rightarrow> None
      | Some response \<Rightarrow>
          if status_code response \<noteq> 200 then None
          else
            (let soup = soup_of response;
                 title' = extract_title soup;
                 brand' = extract_brand soup;
                 (price', currency_symbol) = extract_price L F soup;
                 rating' = extract_rating L soup;
                 reviews' = extract_reviews soup;
                 images' = extract_images L soup;
                 description' = extract_description soup;
                 seller_info = extract_seller_details L soup url
             in Some (Product_init title' brand'
                        (if price' \<noteq> NOT_FOUND then currency_symbol @ price' else NOT_FOUND)
                        (if rating' \<noteq> NOT_FOUND then rating' @ str ''/5'' else NOT_FOUND)
                        reviews' description' (take MAX_IMAGES images') seller_info)))"

section \<open>Example inputs\<close>

text \<open>
  Concrete inputs at which the theorems below are instantiated. \<open>quiet_lib\<close> is a
  library for which no pattern matches, no text is valid JSON, URLs are joined by
  concatenation, a URL has no query parameters, every request fails and float arithmetic
  answers NaN; \<open>serving\<close>
  makes the product request answer with status 200 and a given page. \<open>empty_page\<close> is a
  page on which every query of the scraper finds nothing.
\<close>

definition quiet_lib :: lib where
  "quiet_lib =
     \<lparr> re_search = (\<lambda>p s. None),
       re_sub = (\<lambda>p s. s),
       json_loads = (\<lambda>s. None),
       urljoin = (\<lambda>base url. Some (base @ url)),
       parse_qs_query = (\<lambda>url. Some []),
       get_seller_page = (\<lambda>url. None),
       get_page = (\<lambda>url. None),
       flt_of_int = (\<lambda>n. Some (Finite (n < 0) \<bar>of_int n\<bar>)),
       flt_add = (\<lambda>x y. NaN),
       flt_mul = (\<lambda>x y. NaN),
       flt_div = (\<lambda>x y. NaN),
       flt_str = (\<lambda>x. str ''nan'') \<rparr>"

definition serving :: "page \<Rightarrow> lib" where
  "serving pg = quiet_lib\<lparr>get_page := (\<lambda>url. Some \<lparr>status_code = 200, soup_of = pg\<rparr>)\<rparr>"

definition empty_page :: page where
  "empty_page =
     \<lparr> productTitle = None, bylineInfo = None, price_div = None, main_price = None,
       icon_alt = None, acrCustomerReviewText = None, select = (\<lambda>sel. []),
       productDescription = None, fba_elements = [], ac_badge = None, amazon_seller = None,
       merchant_info = None, seller_profile_div = None, availability = None,
       seller_link = None, feedback_link = None, detail_bullets = None \<rparr>"

text \<open>
  \<open>plain_floats\<close> stands in for Python's floats on plain decimal literals: \<open>float\<close>
  accepts digits with at most one point (and at least one digit) and rejects every
  other string, as Python does for such strings; the arithmetic is exact.
\<close>

definition is_digit :: "pychar \<Rightarrow> bool" where
  "is_digit c \<longleftrightarrow> 48 \<le> c \<and> c \<le> 57"

definition digits_value :: "pystr \<Rightarrow> nat" where
  "digits_value ds = foldl (\<lambda>n c. 10 * n + (c - 48)) 0 ds"

definition plain_decimal :: "pystr \<Rightarrow> rat option" where
  "plain_decimal s =
     (let ip = takeWhile is_digit s; rest = dropWhile is_digit s in
      if rest = [] then (if ip = [] then None else Some (of_nat (digits_value ip)))
      else if hd rest = 46 \<and> list_all is_digit (tl rest) \<and> (ip \<noteq> [] \<or> tl rest \<noteq> [])
      then Some (of_nat (digits_value ip)
                   + of_nat (digits_value (tl rest)) / 10 ^ length (tl rest))
      else None)"

definition two_decimals :: "rat \<Rightarrow> pystr" where
  "two_decimals x =
     (let n = round_half_even (x * 100)
      in str_int (n div 100) @ str ''.'' @ str_int (n mod 100 div 10) @ str_int (n mod 10))"

definition plain_floats :: "rat float_lib" where
  "plain_floats =
     \<lparr> float_of_str = plain_decimal,
       float_mul = (\<lambda>x y. x * y),
       format_2f = two_decimals,
       live_rate = None,
       DEFAULT_EXCHANGE_RATE = 359 / 100000 \<rparr>"

text \<open>A rating fragment with a given \<open>ratingCount\<close> and star percentages.\<close>

definition fragment :: "int \<Rightarrow> int \<Rightarrow> int \<Rightarrow> int \<Rightarrow> int \<Rightarrow> int \<Rightarrow> json" where
  "fragment n s5 s4 s3 s2 s1 =
     JDict [(str ''ratingCount'', JInt n), (str ''star5'', JInt s5), (str ''star4'', JInt s4),
            (str ''star3'', JInt s3), (str ''star2'', JInt s2), (str ''star1'', JInt s1)]"

definition image_with_src :: "string \<Rightarrow> element" where
  "image_with_src url = \<lparr>attrs = [(str ''src'', str url)], strings = []\<rparr>"

text \<open>
  A page whose main image is listed in two sizes, with another image listed twice.
\<close>

definition two_sizes_page :: page where
  "two_sizes_page =
     empty_page\<lparr>select := (\<lambda>sel. if sel = LandingImage
        then [image_with_src ''https://x/a._SL160_.jpg'', image_with_src ''https://x/b.jpg'',
              image_with_src ''https://x/a._SL320_.jpg'', image_with_src ''https://x/b.jpg'']
        else [])\<rparr>"

text \<open>
  A seller page on which every query finds nothing, and an element with one text node.
\<close>

definition empty_seller_page :: seller_page where
  "empty_seller_page =
     \<lparr> a_state_scripts = [], rating_year = None, effective_rating_year = None,
       rating_365d_num = None, percentFiveStar = None, percent_positive = None \<rparr>"


definition link_element :: "string \<Rightarrow> string \<Rightarrow> element" where
  "link_element href t = \<lparr>attrs = [(str ''href'', str href)], strings = [str t]\<rparr>"

text \<open>
  \<open>seller_serving pg j\<close> answers every seller-page request with status 200 and the page
  \<open>pg\<close>, and parses scripts with \<open>j\<close>. \<open>three_fragments\<close> is a seller page with three
  rating scripts, which \<open>three_loads\<close> parses to fragments with the counts 120, 450 and
  900 and the star percentages 80, 10, 5, 3 and 2. \<open>store_seller\<close> is a seller record with
  a store URL.
\<close>

definition seller_serving :: "seller_page \<Rightarrow> (pystr \<Rightarrow> json option) \<Rightarrow> lib" where
  "seller_serving pg j =
     quiet_lib\<lparr>get_seller_page := (\<lambda>url. Some \<lparr>seller_status_code = 200, seller_soup = pg\<rparr>),
               json_loads := j\<rparr>"

definition three_fragments :: seller_page where
  "three_fragments =
     empty_seller_page\<lparr>a_state_scripts :=
       [Some (str ''ratingCount 120 star5''), Some (str ''ratingCount 450 star5''),
        Some (str ''ratingCount 900 star5'')]\<rparr>"

definition three_loads :: "pystr \<Rightarrow> json option" where
  "three_loads t =
     (if t = str ''ratingCount 120 star5'' then Some (fragment 120 80 10 5 3 2)
      else if t = str ''ratingCount 450 star5'' then Some (fragment 450 80 10 5 3 2)
      else if t = str ''ratingCount 900 star5'' then Some (fragment 900 80 10 5 3 2)
      else None)"







text \<open>
  A page whose only seller markup is a seller profile link to \<^verbatim>\<open>/sp\<close>, a URL without a
  \<open>seller\<close> parameter.
\<close>

definition seller_link_page :: page where
  "seller_link_page = empty_page\<lparr>seller_link := Some (link_element ''/sp'' ''Acme'')\<rparr>"

section \<open>Notions used to state the properties\<close>

text \<open>
  A word is a non-empty string without whitespace, and \<open>adj_ws\<close> holds of a string with
  two adjacent whitespace characters.
\<close>

definition word_ok :: "pystr \<Rightarrow> bool" where
  "word_ok w \<longleftrightarrow> w \<noteq> [] \<and> (\<forall>c \<in> set w. \<not> isspace c)"

definition adj_ws :: "pystr \<Rightarrow> bool" where
  "adj_ws r \<longleftrightarrow> (\<exists>u a b v. r = u @ a # b # v \<and> isspace a \<and> isspace b)"

text \<open>
  \<open>image_sources\<close> lists the \<open>src\<close> the two nested loops of \<open>_extract_images\<close> resolve, in
  the order they visit the elements; \<open>accepted_urls\<close> are those that pass the test
  \<open>src and 'http' in src\<close>. \<open>add_src\<close> is what the loop body does with an accepted one.
\<close>

definition image_sources :: "lib \<Rightarrow> page \<Rightarrow> pystr option list" where
  "image_sources L soup =
     concat (map (\<lambda>sel. map (resolve_src L) (select soup sel)) image_selectors)"

definition accepted_urls :: "lib \<Rightarrow> page \<Rightarrow> pystr list" where
  "accepted_urls L soup = map the (filter accepted (image_sources L soup))"

definition add_src :: "pystr list \<Rightarrow> pystr \<Rightarrow> pystr list" where
  "add_src imgs s = (if s \<notin> set imgs then imgs @ [high_res s] else imgs)"



text \<open>The nine seller fields that \<open>display_seller_details\<close> prints under a test.\<close>

definition nine_fields :: "SellerInfo \<Rightarrow> pystr list" where
  "nine_fields sd = [seller_rating sd, seller_reviews sd, lifetime_rating sd, lifetime_reviews sd,
     seller_since sd, positive_feedback sd, shipped_by sd, sold_by sd, seller_description sd]"

section \<open>Basic facts\<close>

lemma str_inject [simp]: "str a = str b \<longleftrightarrow> a = b"
proof -
  have "inj (of_char :: char \<Rightarrow> nat)"
    by (rule inj_on_inverseI[where g = char_of]) simp
  then show ?thesis by (simp add: str_def inj_map_eq_map)
qed

section \<open>Properties of \<open>clean_text\<close>\<close>

lemma str_space [simp]: "str '' '' = [32]"
  by (simp add: str_def)

lemma split_acc_words: "(\<forall>c \<in> set cur. \<not> isspace c) \<Longrightarrow> w \<in> set (split_acc cur s) \<Longrightarrow> word_ok w"
proof (induction s arbitrary: cur)
  case Nil
  then show ?case by (auto simp: word_ok_def split: if_splits)
next
  case (Cons a s)
  show ?case
  proof (cases "isspace a")
    case True
    with Cons.prems have "w = cur \<and> cur \<noteq> [] \<or> w \<in> set (split_acc [] s)"
      by (auto split: if_splits)
    then show ?thesis using Cons.IH[of "[]"] Cons.prems(1) by (auto simp: word_ok_def)
  next
    case False
    with Cons.prems have "w \<in> set (split_acc (cur @ [a]) s)" by simp
    moreover from False Cons.prems(1) have "\<forall>c \<in> set (cur @ [a]). \<not> isspace c" by simp
    ultimately show ?thesis using Cons.IH by blast
  qed
qed

lemma split_acc_nospace:
  "\<forall>c \<in> set w. \<not> isspace c \<Longrightarrow> split_acc cur (w @ s) = split_acc (cur @ w) s"
  by (induction w arbitrary: cur) auto

lemma split_join: "\<forall>w \<in> set ws. word_ok w \<Longrightarrow> split_acc [] (join_with [32] ws) = ws"
proof (induction "[32::nat]" ws rule: join_with.induct)
  case (1) then show ?case by simp
next
  case (2 w)
  then show ?case using split_acc_nospace[of w "[]" "[]"] by (simp add: word_ok_def)
next
  case (3 w v ws)
  then show ?case using split_acc_nospace[of w "[]" "[32] @ join_with [32] (v # ws)"] 
    by (simp add: word_ok_def isspace_def)
qed

lemma split_acc_drop_lead: "split_acc [] (dropWhile isspace s) = split_acc [] s"
  by (induction s) auto

lemma split_acc_trail: "\<forall>c \<in> set t. isspace c \<Longrightarrow> split_acc cur (s @ t) = split_acc cur s"
proof (induction s arbitrary: cur)
  case Nil
  then show ?case by (induction t arbitrary: cur) auto
next
  case (Cons a s)
  then show ?case by auto
qed

lemma split_strip: "split_ws (strip s) = split_ws s"
proof -
  let ?d = "dropWhile isspace s"
  have "?d = rev (dropWhile isspace (rev ?d)) @ rev (takeWhile isspace (rev ?d))"
    by (metis rev_append rev_rev_ident takeWhile_dropWhile_id)
  moreover have "\<forall>c \<in> set (rev (takeWhile isspace (rev ?d))). isspace c"
    by (auto dest: set_takeWhileD)
  ultimately have "split_acc [] ?d = split_acc [] (strip s)"
    unfolding strip_def using split_acc_trail by metis
  then show ?thesis by (simp add: split_ws_def split_acc_drop_lead)
qed

lemma adj_ws_Nil: "\<not> adj_ws []"
  by (simp add: adj_ws_def)

lemma adj_ws_Cons: "adj_ws (c # r) \<longleftrightarrow> (r \<noteq> [] \<and> isspace c \<and> isspace (hd r)) \<or> adj_ws r"
proof
  assume "adj_ws (c # r)"
  then obtain u a b v where e: "c # r = u @ a # b # v" and s: "isspace a" "isspace b"
    by (auto simp: adj_ws_def)
  show "(r \<noteq> [] \<and> isspace c \<and> isspace (hd r)) \<or> adj_ws r"
  proof (cases u)
    case Nil
    with e s show ?thesis by auto
  next
    case (Cons x u')
    with e have "r = u' @ a # b # v" by simp
    with s show ?thesis by (auto simp: adj_ws_def)
  qed
next
  assume "(r \<noteq> [] \<and> isspace c \<and> isspace (hd r)) \<or> adj_ws r"
  then show "adj_ws (c # r)"
  proof
    assume a: "r \<noteq> [] \<and> isspace c \<and> isspace (hd r)"
    then obtain b v where "r = b # v" by (cases r) auto
    with a have "c # r = [] @ c # b # v \<and> isspace c \<and> isspace b" by simp
    then show ?thesis unfolding adj_ws_def by blast
  next
    assume "adj_ws r"
    then obtain u a b v where "r = u @ a # b # v" "isspace a" "isspace b"
      by (auto simp: adj_ws_def)
    then have "c # r = (c # u) @ a # b # v \<and> isspace a \<and> isspace b" by simp
    then show ?thesis unfolding adj_ws_def by blast
  qed
qed

lemma adj_ws_word: "\<forall>c \<in> set w. \<not> isspace c \<Longrightarrow> adj_ws (w @ r) \<longleftrightarrow> adj_ws r"
  by (induction w) (auto simp: adj_ws_Cons)

lemma join_hd_last:
  "\<forall>w \<in> set ws. word_ok w \<Longrightarrow> ws \<noteq> [] \<Longrightarrow>
     join_with [32] ws \<noteq> [] \<and> \<not> isspace (hd (join_with [32] ws)) \<and> \<not> isspace (last (join_with [32] ws))"
  by (induction "[32::nat]" ws rule: join_with.induct) (auto simp: word_ok_def hd_append)

lemma join_no_adj: "\<forall>w \<in> set ws. word_ok w \<Longrightarrow> \<not> adj_ws (join_with [32] ws)"
proof (induction "[32::nat]" ws rule: join_with.induct)
  case 1
  then show ?case by (simp add: adj_ws_Nil)
next
  case (2 w)
  then show ?case using adj_ws_word[of w "[]"] by (simp add: word_ok_def adj_ws_Nil)
next
  case (3 w v ws)
  then have "\<not> adj_ws (join_with [32] (v # ws))" by simp
  moreover from 3 have "\<not> isspace (hd (join_with [32] (v # ws)))"
    using join_hd_last[of "v # ws"] by simp
  ultimately have "\<not> adj_ws (32 # join_with [32] (v # ws))"
    by (simp add: adj_ws_Cons)
  moreover from 3 have "\<forall>c \<in> set w. \<not> isspace c" by (simp add: word_ok_def)
  ultimately show ?case using adj_ws_word[of w "32 # join_with [32] (v # ws)"] by simp
qed

lemma join_only_space:
  "\<forall>w \<in> set ws. word_ok w \<Longrightarrow> c \<in> set (join_with [32] ws) \<Longrightarrow> isspace c \<Longrightarrow> c = 32"
  by (induction "[32::nat]" ws rule: join_with.induct) (auto simp: word_ok_def)

lemma join_filter:
  "\<forall>w \<in> set ws. word_ok w \<Longrightarrow> filter (\<lambda>c. \<not> isspace c) (join_with [32] ws) = concat ws"
  by (induction "[32::nat]" ws rule: join_with.induct) (auto simp: word_ok_def isspace_def)

lemma split_acc_concat:
  "\<forall>c \<in> set cur. \<not> isspace c \<Longrightarrow> concat (split_acc cur s) = cur @ filter (\<lambda>c. \<not> isspace c) s"
  by (induction s arbitrary: cur) auto

lemma split_ws_words: "\<forall>w \<in> set (split_ws s). word_ok w"
  using split_acc_words[of "[]" _ s] by (auto simp: split_ws_def)

lemma clean_text_eq: "clean_text (Some x) = join_with [32] (split_ws x)"
  by (simp add: clean_text_def split_strip) (simp add: split_ws_def)

text \<open>
  Claim C9. \<open>clean_text\<close> returns the empty string for an absent and for an empty text.
  Otherwise it is the words of the text joined by single spaces: the only whitespace of
  the result is the space character, the result neither starts nor ends with whitespace,
  no two whitespace characters are adjacent in it, and the characters that are not
  whitespace are those of the input, in order. It is idempotent.
\<close>

theorem clean_text_spec:
  "clean_text None = [] \<and> clean_text (Some []) = [] \<and>
   clean_text (Some x) = join_with (str '' '') (split_ws x) \<and>
   (\<forall>c \<in> set (clean_text (Some x)). isspace c \<longrightarrow> c = 32) \<and>
   (clean_text (Some x) \<noteq> [] \<longrightarrow>
      \<not> isspace (hd (clean_text (Some x))) \<and> \<not> isspace (last (clean_text (Some x)))) \<and>
   (\<forall>u a b v. clean_text (Some x) = u @ a # b # v \<longrightarrow> \<not> (isspace a \<and> isspace b)) \<and>
   filter (\<lambda>c. \<not> isspace c) (clean_text (Some x)) = filter (\<lambda>c. \<not> isspace c) x \<and>
   clean_text (Some (clean_text (Some x))) = clean_text (Some x)"
proof -
  let ?ws = "split_ws x"
  have ok: "\<forall>w \<in> set ?ws. word_ok w" by (rule split_ws_words)
  have e: "clean_text (Some x) = join_with [32] ?ws" by (rule clean_text_eq)
  have p1: "clean_text None = []" "clean_text (Some []) = []" by (simp_all add: clean_text_def)
  have p2: "\<forall>c \<in> set (clean_text (Some x)). isspace c \<longrightarrow> c = 32"
    using join_only_space[OF ok] by (simp add: e)
  have p3: "clean_text (Some x) \<noteq> [] \<longrightarrow>
      \<not> isspace (hd (clean_text (Some x))) \<and> \<not> isspace (last (clean_text (Some x)))"
    using join_hd_last[OF ok] by (cases "?ws = []") (simp_all add: e)
  have p4: "\<forall>u a b v. clean_text (Some x) = u @ a # b # v \<longrightarrow> \<not> (isspace a \<and> isspace b)"
    using join_no_adj[OF ok] unfolding e adj_ws_def by blast
  have p5: "filter (\<lambda>c. \<not> isspace c) (clean_text (Some x)) = filter (\<lambda>c. \<not> isspace c) x"
    using join_filter[OF ok] split_acc_concat[of "[]" x] by (simp add: e split_ws_def)
  have "split_ws (join_with [32] ?ws) = ?ws"
    using split_join[OF ok] by (simp add: split_ws_def)
  then have p6: "clean_text (Some (clean_text (Some x))) = clean_text (Some x)"
    by (simp add: clean_text_eq)
  from e have e': "clean_text (Some x) = join_with (str '' '') (split_ws x)" by simp
  from p1 e' p2 p3 p4 p5 p6 show ?thesis by blast
qed

theorem clean_text_spec_witness:
  "clean_text (Some (clean_text (Some (str ''  a   b '')))) = str ''a b''"
proof -
  have "clean_text (Some (clean_text (Some (str ''  a   b '')))) = clean_text (Some (str ''  a   b ''))"
    using clean_text_spec[of "str ''  a   b ''"] by blast
  also have "\<dots> = str ''a b''"
    by (simp add: clean_text_def strip_def split_ws_def isspace_def str_def)
  finally show ?thesis .
qed

section \<open>Properties of the image extractor\<close>

subsection \<open>Substrings\<close>

lemma starts_with_take: "starts_with sub s \<longleftrightarrow> take (length sub) s = sub"
  by (induction sub s rule: starts_with.induct) auto

lemma starts_with_append: "starts_with sub (sub @ t)"
  by (simp add: starts_with_take)

lemma contains_iff: "contains sub s \<longleftrightarrow> (\<exists>p t. s = p @ sub @ t)"
proof (induction s)
  case Nil
  then show ?case by auto
next
  case (Cons c cs)
  show ?case
  proof
    assume "contains sub (c # cs)"
    then consider "starts_with sub (c # cs)" | "contains sub cs" by auto
    then show "\<exists>p t. c # cs = p @ sub @ t"
    proof cases
      case 1
      then have "c # cs = [] @ sub @ drop (length sub) (c # cs)"
        by (metis append_Nil append_take_drop_id starts_with_take)
      then show ?thesis by blast
    next
      case 2
      with Cons obtain p t where "cs = p @ sub @ t" by blast
      then have "c # cs = (c # p) @ sub @ t" by simp
      then show ?thesis by blast
    qed
  next
    assume "\<exists>p t. c # cs = p @ sub @ t"
    then obtain p t where e: "c # cs = p @ sub @ t" by blast
    show "contains sub (c # cs)"
    proof (cases p)
      case Nil
      with e have "starts_with sub (c # cs)" by (simp add: starts_with_append)
      then show ?thesis by simp
    next
      case (Cons a p')
      with e have "cs = p' @ sub @ t" by simp
      with Cons.IH have "contains sub cs" by blast
      then show ?thesis by simp
    qed
  qed
qed

lemma before_first_decomp:
  "contains sep s \<Longrightarrow> \<exists>t. s = before_first sep s @ sep @ t"
proof (induction s)
  case Nil
  then show ?case by simp
next
  case (Cons c cs)
  show ?case
  proof (cases "starts_with sep (c # cs)")
    case True
    then have "c # cs = sep @ drop (length sep) (c # cs)"
      by (metis append_take_drop_id starts_with_take)
    with True show ?thesis by (metis append_Nil before_first.simps(2))
  next
    case False
    with Cons.prems have "contains sep cs" by simp
    with Cons.IH obtain t where "cs = before_first sep cs @ sep @ t" by blast
    with False show ?thesis by (metis append_Cons before_first.simps(2))
  qed
qed

lemma before_first_least:
  "s = p @ sep @ t \<Longrightarrow> length (before_first sep s) \<le> length p"
proof (induction s arbitrary: p)
  case Nil
  then show ?case by simp
next
  case (Cons c cs)
  show ?case
  proof (cases "starts_with sep (c # cs)")
    case True
    then show ?thesis by simp
  next
    case False
    show ?thesis
    proof (cases p)
      case Nil
      with Cons.prems have "starts_with sep (c # cs)" by (simp add: starts_with_append)
      with False show ?thesis by simp
    next
      case (Cons a p')
      with Cons.prems have "cs = p' @ sep @ t" by simp
      from Cons.IH[OF this] False Cons show ?thesis by simp
    qed
  qed
qed

lemma before_first_stable:
  "contains sep s \<Longrightarrow> before_first sep (before_first sep s @ sep @ t) = before_first sep s"
proof (induction s)
  case Nil
  then show ?case by (cases t) simp_all
next
  case (Cons c cs)
  show ?case
  proof (cases "starts_with sep (c # cs)")
    case True
    then have "before_first sep (c # cs) = []" by simp
    moreover have "before_first sep (sep @ t) = []"
    proof (cases "sep @ t")
      case Nil
      then show ?thesis by simp
    next
      case (Cons a l)
      have "starts_with sep (sep @ t)" by (rule starts_with_append)
      with Cons show ?thesis by simp
    qed
    ultimately show ?thesis by simp
  next
    case False
    with Cons.prems have c: "contains sep cs" by simp
    then obtain r where d: "cs = before_first sep cs @ sep @ r"
      using before_first_decomp by blast
    let ?u = "c # before_first sep cs @ sep"
    have "length sep \<le> length ?u" by simp
    then have "\<And>w. take (length sep) (?u @ w) = take (length sep) ?u"
      by (simp only: take_append diff_is_0_eq' take_0 append_Nil2)
    then have "take (length sep) (?u @ t) = take (length sep) (?u @ r)" by simp
    moreover have "?u @ r = c # cs" using d by simp
    ultimately have "\<not> starts_with sep (?u @ t)"
      using False by (metis starts_with_take)
    then have "before_first sep (c # (before_first sep cs @ sep @ t))
                 = c # before_first sep (before_first sep cs @ sep @ t)"
      by simp
    with False Cons.IH[OF c] show ?thesis by simp
  qed
qed

lemma str_append: "str (a @ b) = str a @ str b"
  by (simp add: str_def)

lemma marker_suffix: "str ''._SL1500_'' = str ''._SL'' @ str ''1500_''"
  by (simp add: str_def)

lemma high_res_idem: "high_res (high_res s) = high_res s"
proof (cases "contains (str ''._SL'') s")
  case False
  then show ?thesis by (simp add: high_res_def)
next
  case True
  let ?p = "before_first (str ''._SL'') s"
  have h: "high_res s = ?p @ str ''._SL'' @ str ''1500_''"
    using True by (simp add: high_res_def marker_suffix)
  then have "contains (str ''._SL'') (high_res s)" unfolding contains_iff by blast
  moreover have "before_first (str ''._SL'') (high_res s) = ?p"
    using before_first_stable[OF True] h by simp
  ultimately show ?thesis using h by (simp add: high_res_def marker_suffix)
qed

lemma dict_fromkeys_Nil [simp]: "dict_fromkeys [] = []"
  by (simp add: dict_fromkeys_def)

lemma dict_fromkeys_snoc:
  "dict_fromkeys (xs @ [x]) =
     (if x \<in> set (dict_fromkeys xs) then dict_fromkeys xs else dict_fromkeys xs @ [x])"
  by (simp add: dict_fromkeys_def)

lemma set_dict_fromkeys: "set (dict_fromkeys xs) = set xs"
  by (induction xs rule: rev_induct) (auto simp: dict_fromkeys_snoc)

lemma distinct_dict_fromkeys: "distinct (dict_fromkeys xs)"
  by (induction xs rule: rev_induct) (auto simp: dict_fromkeys_snoc)

lemma dict_fromkeys_order:
  "i < j \<Longrightarrow> j < length (dict_fromkeys xs) \<Longrightarrow>
     \<exists>k < length xs. xs ! k = dict_fromkeys xs ! i \<and> (\<forall>m \<le> k. xs ! m \<noteq> dict_fromkeys xs ! j)"
proof (induction xs rule: rev_induct)
  case Nil
  then show ?case by simp
next
  case (snoc x xs)
  let ?out = "dict_fromkeys xs"
  show ?case
  proof (cases "x \<in> set xs")
    case True
    then have e: "dict_fromkeys (xs @ [x]) = ?out"
      by (simp add: dict_fromkeys_snoc set_dict_fromkeys)
    with snoc obtain k where k: "k < length xs" "xs ! k = ?out ! i" "\<forall>m \<le> k. xs ! m \<noteq> ?out ! j"
      by auto
    then have "k < length (xs @ [x]) \<and> (xs @ [x]) ! k = ?out ! i \<and> (\<forall>m \<le> k. (xs @ [x]) ! m \<noteq> ?out ! j)"
      by (simp add: nth_append)
    with e show ?thesis by auto
  next
    case False
    then have e: "dict_fromkeys (xs @ [x]) = ?out @ [x]"
      by (simp add: dict_fromkeys_snoc set_dict_fromkeys)
    show ?thesis
    proof (cases "j < length ?out")
      case True
      with snoc.IH[OF snoc.prems(1)] obtain k where k: "k < length xs" "xs ! k = ?out ! i"
          "\<forall>m \<le> k. xs ! m \<noteq> ?out ! j"
        by auto
      from True snoc.prems(1) have "(?out @ [x]) ! i = ?out ! i" "(?out @ [x]) ! j = ?out ! j"
        by (simp_all add: nth_append)
      moreover from k have "k < length (xs @ [x]) \<and> (xs @ [x]) ! k = ?out ! i
          \<and> (\<forall>m \<le> k. (xs @ [x]) ! m \<noteq> ?out ! j)"
        by (simp add: nth_append)
      ultimately show ?thesis using e by auto
    next
      case False
      with snoc.prems e have j: "j = length ?out" by simp
      with snoc.prems(1) have i: "i < length ?out" by simp
      then have "?out ! i \<in> set xs" using set_dict_fromkeys[of xs] nth_mem by blast
      then obtain k where k: "k < length xs" "xs ! k = ?out ! i" by (auto simp: in_set_conv_nth)
      have "\<forall>m \<le> k. (xs @ [x]) ! m \<noteq> x"
      proof (intro allI impI)
        fix m assume "m \<le> k"
        with k have "m < length xs" by simp
        then have "(xs @ [x]) ! m = xs ! m" "xs ! m \<in> set xs" by (simp_all add: nth_append)
        with \<open>x \<notin> set xs\<close> show "(xs @ [x]) ! m \<noteq> x" by auto
      qed
      moreover from k have "k < length (xs @ [x])" "(xs @ [x]) ! k = ?out ! i"
        by (simp_all add: nth_append)
      moreover from i j have "(?out @ [x]) ! i = ?out ! i" "(?out @ [x]) ! j = x"
        by (simp_all add: nth_append)
      ultimately show ?thesis using e by auto
    qed
  qed
qed

lemma add_image_src:
  "add_image L imgs img =
     (if accepted (resolve_src L img) then add_src imgs (the (resolve_src L img)) else imgs)"
  by (auto simp: add_image_def accepted_def add_src_def split: option.splits)

lemma foldl_add_image:
  "foldl (add_image L) imgs elems
     = foldl add_src imgs (map the (filter accepted (map (resolve_src L) elems)))"
  by (induction elems arbitrary: imgs) (simp_all add: add_image_src)

lemma foldl_add_selector:
  "foldl (add_selector L soup) imgs sels
     = foldl add_src imgs
         (map the (filter accepted (concat (map (\<lambda>sel. map (resolve_src L) (select soup sel)) sels))))"
  by (induction sels arbitrary: imgs) (simp_all add: add_selector_def foldl_add_image)

lemma add_src_seen: "s \<in> set imgs \<Longrightarrow> add_src imgs s = imgs"
  by (simp add: add_src_def)

lemma add_src_new: "s \<notin> set imgs \<Longrightarrow> add_src imgs s = imgs @ [high_res s]"
  by (simp add: add_src_def)

lemma add_src_invariant:
  "set (foldl add_src [] srcs) = high_res ` set srcs \<and>
   dict_fromkeys (foldl add_src [] srcs) = dict_fromkeys (map high_res srcs)"
proof (induction srcs rule: rev_induct)
  case Nil
  then show ?case by simp
next
  case (snoc s srcs)
  let ?imgs = "foldl add_src [] srcs"
  from snoc have st: "set ?imgs = high_res ` set srcs"
    and dk: "dict_fromkeys ?imgs = dict_fromkeys (map high_res srcs)" by simp_all
  show ?case
  proof (cases "s \<in> set ?imgs")
    case True
    with st obtain y where "s = high_res y" by auto
    then have fp: "high_res s = s" by (simp add: high_res_idem)
    with True st have h: "high_res s \<in> high_res ` set srcs" by simp
    have step: "foldl add_src [] (srcs @ [s]) = ?imgs"
      using True by (simp add: add_src_seen)
    have "set ?imgs = high_res ` set (srcs @ [s])"
      using st h by auto
    moreover have "dict_fromkeys (map high_res (srcs @ [s])) = dict_fromkeys (map high_res srcs)"
      using h by (simp add: dict_fromkeys_snoc set_dict_fromkeys)
    ultimately show ?thesis using dk step by simp
  next
    case False
    have step: "foldl add_src [] (srcs @ [s]) = ?imgs @ [high_res s]"
      using False by (simp add: add_src_new)
    have "set (?imgs @ [high_res s]) = high_res ` set (srcs @ [s])"
      using st by auto
    moreover have "dict_fromkeys (?imgs @ [high_res s]) = dict_fromkeys (map high_res (srcs @ [s]))"
      using st dk by (simp add: dict_fromkeys_snoc set_dict_fromkeys)
    ultimately show ?thesis using step by simp
  qed
qed

lemma extract_images_eq:
  "extract_images L soup = dict_fromkeys (map high_res (accepted_urls L soup))"
  using add_src_invariant[of "accepted_urls L soup"]
  by (simp add: extract_images_def foldl_add_selector accepted_urls_def image_sources_def)

subsection \<open>The rewrite to the high-resolution URL\<close>

text \<open>
  Claim C2, as amended. An accepted URL that contains \<^verbatim>\<open>._SL\<close> is stored as the part of
  the URL before the first \<^verbatim>\<open>._SL\<close> followed by \<^verbatim>\<open>._SL1500_\<close>: the marker and
  everything behind it, the file extension included, are replaced by the suffix.
\<close>

theorem image_rewrite:
  assumes "resolve_src L img = Some src" and "src \<noteq> []" and "contains (str ''http'') src"
    and "src \<notin> set imgs" and "contains (str ''._SL'') src"
  shows "\<exists>p t. src = p @ str ''._SL'' @ t
           \<and> (\<forall>p' t'. src = p' @ str ''._SL'' @ t' \<longrightarrow> length p \<le> length p')
           \<and> add_image L imgs img = imgs @ [p @ str ''._SL1500_'']"
proof -
  let ?p = "before_first (str ''._SL'') src"
  from before_first_decomp[OF assms(5)] obtain t where d: "src = ?p @ str ''._SL'' @ t" by blast
  have least: "\<forall>p' t'. src = p' @ str ''._SL'' @ t' \<longrightarrow> length ?p \<le> length p'"
    using before_first_least by blast
  have "add_image L imgs img = imgs @ [?p @ str ''._SL1500_'']"
    using assms by (simp add: add_image_def high_res_def)
  with d least show ?thesis by blast
qed

theorem image_rewrite_witness:
  "\<exists>p t. str ''https://m.media-amazon.com/images/I/image._SL160_.jpg'' = p @ str ''._SL'' @ t
     \<and> add_image quiet_lib [] (image_with_src ''https://m.media-amazon.com/images/I/image._SL160_.jpg'')
         = [p @ str ''._SL1500_'']"
proof -
  let ?src = "str ''https://m.media-amazon.com/images/I/image._SL160_.jpg''"
  let ?img = "image_with_src ''https://m.media-amazon.com/images/I/image._SL160_.jpg''"
  have r: "resolve_src quiet_lib ?img = Some ?src"
    by (simp add: resolve_src_def image_with_src_def get_attr_def py_or_def truthy_str_def
        has_attr_def str_def)
  have a: "?src \<noteq> []" "contains (str ''http'') ?src" "?src \<notin> set []"
    "contains (str ''._SL'') ?src"
    by (simp_all add: str_def)
  from image_rewrite[OF r a] show ?thesis by auto
qed

text \<open>
  The URL \<^verbatim>\<open>https://m.media-amazon.com/images/I/image._SL160_.jpg\<close> is stored as
  \<^verbatim>\<open>https://m.media-amazon.com/images/I/image._SL1500_\<close>, without \<^verbatim>\<open>.jpg\<close>.
\<close>

theorem image_rewrite_counterexample:
  "add_image quiet_lib [] (image_with_src ''https://m.media-amazon.com/images/I/image._SL160_.jpg'')
     = [str ''https://m.media-amazon.com/images/I/image._SL1500_'']
   \<and> str ''https://m.media-amazon.com/images/I/image._SL1500_''
     \<noteq> str ''https://m.media-amazon.com/images/I/image._SL1500_.jpg''"
  by (simp add: add_image_def resolve_src_def image_with_src_def get_attr_def py_or_def
      truthy_str_def has_attr_def high_res_def str_def)

subsection \<open>The image list\<close>

lemma scrape_images:
  "scrape L F url = Some p \<Longrightarrow>
     \<exists>response. get_page L url = Some response
        \<and> images p = take MAX_IMAGES (extract_images L (soup_of response))"
  by (auto simp: scrape_def Let_def Product_init_def split: option.splits if_splits prod.splits)

text \<open>
  Claim C7. Let \<open>urls\<close> be the accepted URLs after the rewrite, in the order the loops
  meet them. The extracted list has no duplicates, holds exactly the URLs of \<open>urls\<close>,
  and lists them by first occurrence: of two entries, the earlier one occurs in \<open>urls\<close>
  before any occurrence of the later one. This covers two sources that rewrite to the
  same URL. The \<open>Product\<close> stores the first \<open>MAX_IMAGES\<close> of them, at most 10.
\<close>

theorem images_first_seen:
  assumes "scrape L F url = Some p"
  shows "\<exists>response. get_page L url = Some response \<and>
           (let urls = map high_res (accepted_urls L (soup_of response));
                out = extract_images L (soup_of response)
            in distinct out \<and> set out = set urls
               \<and> (\<forall>i j. i < j \<and> j < length out \<longrightarrow>
                     (\<exists>k < length urls. urls ! k = out ! i \<and> (\<forall>m \<le> k. urls ! m \<noteq> out ! j)))
               \<and> images p = take MAX_IMAGES out \<and> length (images p) \<le> 10)"
proof -
  from scrape_images[OF assms] obtain response where
    g: "get_page L url = Some response"
    and im: "images p = take MAX_IMAGES (extract_images L (soup_of response))" by blast
  let ?urls = "map high_res (accepted_urls L (soup_of response))"
  let ?out = "extract_images L (soup_of response)"
  have e: "?out = dict_fromkeys ?urls" by (rule extract_images_eq)
  have d: "distinct ?out" by (simp only: e distinct_dict_fromkeys)
  have s: "set ?out = set ?urls" by (simp only: e set_dict_fromkeys)
  have o: "\<forall>i j. i < j \<and> j < length ?out \<longrightarrow>
             (\<exists>k < length ?urls. ?urls ! k = ?out ! i \<and> (\<forall>m \<le> k. ?urls ! m \<noteq> ?out ! j))"
    unfolding e using dict_fromkeys_order by blast
  have l: "length (images p) \<le> 10" by (simp add: im MAX_IMAGES_def)
  from g d s o im l show ?thesis unfolding Let_def by blast
qed

lemma two_sizes_images:
  "extract_images (serving two_sizes_page) two_sizes_page
     = [str ''https://x/a._SL1500_'', str ''https://x/b.jpg'']"
  by (simp add: extract_images_def image_selectors_def add_selector_def two_sizes_page_def
      empty_page_def add_image_def resolve_src_def image_with_src_def get_attr_def py_or_def
      truthy_str_def has_attr_def high_res_def dict_fromkeys_def str_def)

theorem images_first_seen_witness:
  "images (the (scrape (serving two_sizes_page) plain_floats (str ''https://x/p'')))
     = [str ''https://x/a._SL1500_'', str ''https://x/b.jpg'']"
proof -
  let ?L = "serving two_sizes_page"
  let ?p = "the (scrape ?L plain_floats (str ''https://x/p''))"
  have s: "scrape ?L plain_floats (str ''https://x/p'') = Some ?p"
    by (simp add: scrape_def serving_def quiet_lib_def Let_def split: prod.splits)
  have g: "get_page ?L (str ''https://x/p'') = Some \<lparr>status_code = 200, soup_of = two_sizes_page\<rparr>"
    by (simp add: serving_def)
  from images_first_seen[OF s] g
  have "images ?p = take MAX_IMAGES (extract_images ?L two_sizes_page)"
    by (auto simp: Let_def)
  then show ?thesis by (simp add: two_sizes_images MAX_IMAGES_def)
qed

section \<open>Properties of the fragment selection\<close>










lemma three_data: "script_data_list (seller_serving three_fragments three_loads) three_fragments
    = [fragment 120 80 10 5 3 2, fragment 450 80 10 5 3 2, fragment 900 80 10 5 3 2]"
  by (simp add: script_data_list_def List.map_filter_def parse_script_def three_fragments_def
      seller_serving_def three_loads_def strip_def isspace_def Let_def str_def)





section \<open>The effective-period override\<close>

lemma rating_fill_positive_feedback [simp]:
  "seller_rating (fill_positive_feedback L soup s) = seller_rating s"
  by (simp add: fill_positive_feedback_def split: option.splits)

lemma rating_fill_seller_reviews [simp]:
  "seller_rating (fill_seller_reviews soup s) = seller_rating s"
  by (simp add: fill_seller_reviews_def split: option.splits)






section \<open>The currency conversion\<close>

text \<open>
  Claim C10. With a symbol among PKR, the rupee sign and Rs, an amount that \<open>float\<close>
  rejects comes back unchanged together with its symbol. In every case the handler
  returns either the pair it was given or the converted amount together with \<open>$\<close>:
  never one rewritten without the other.
\<close>

theorem currency_conversion_atomic:
  "(currency_symbol \<in> set non_usd_symbols \<and> float_of_str F amount = None
      \<longrightarrow> handle_currency_conversion F amount currency_symbol = (amount, currency_symbol))
   \<and> (handle_currency_conversion F amount currency_symbol = (amount, currency_symbol)
       \<or> (\<exists>x. float_of_str F amount = Some x
             \<and> handle_currency_conversion F amount currency_symbol
                 = (format_2f F (float_mul F x (get_live_exchange_rate F)), str ''$'')))"
  by (auto simp: handle_currency_conversion_def Let_def split: option.splits)

theorem currency_conversion_atomic_witness:
  "handle_currency_conversion plain_floats (str ''1.2.3'') (str ''PKR'') = (str ''1.2.3'', str ''PKR'')"
proof -
  have a: "str ''PKR'' \<in> set non_usd_symbols" by (simp add: non_usd_symbols_def)
  have b: "float_of_str plain_floats (str ''1.2.3'') = None"
    by (simp add: plain_floats_def plain_decimal_def is_digit_def str_def)
  from currency_conversion_atomic[of "str ''PKR''" plain_floats "str ''1.2.3''"] a b
  show ?thesis by blast
qed

section \<open>The seller summary\<close>

lemma ball_line_if: "(\<forall>l \<in> set (line_if b x). P l) \<longleftrightarrow> (b \<longrightarrow> P x)"
  by (cases b) (simp_all add: line_if_def)

lemma length_line_if:
  "length (line_if (v \<noteq> NOT_FOUND) x) = length (filter (\<lambda>v. v \<noteq> NOT_FOUND) [v])"
  by (simp add: line_if_def)

lemma filter_nine:
  "filter P [a, b, c, d, e, f, g, h, i]
     = filter P [a] @ filter P [b] @ filter P [c] @ filter P [d] @ filter P [e]
       @ filter P [f] @ filter P [g] @ filter P [h] @ filter P [i]"
  by (simp only: filter_append[symmetric] append.simps)

lemma display_length:
  "length (display_seller_details p)
     = 5 + length (filter (\<lambda>v. v \<noteq> NOT_FOUND) (nine_fields (seller_details p)))"
  unfolding display_seller_details_def Let_def nine_fields_def filter_nine
  by (simp only: length_append length_line_if list.size)

lemma display_lines:
  "(\<forall>l \<in> set (display_seller_details p). P l) \<longleftrightarrow>
     (let sd = seller_details p in
      P (nl @ str '' Seller Details:'')
      \<and> P (str ''  Seller Name: '' @ seller_name sd)
      \<and> P (str ''  Seller Store URL: '' @ seller_store_url sd)
      \<and> P (nl @ str ''  12-Month Performance:'')
      \<and> (seller_rating sd \<noteq> NOT_FOUND \<longrightarrow> P (str ''    Seller Rating: '' @ seller_rating sd @ str ''/5''))
      \<and> (seller_reviews sd \<noteq> NOT_FOUND \<longrightarrow> P (str ''    Seller Reviews: '' @ seller_reviews sd))
      \<and> P (nl @ str ''  Lifetime Performance:'')
      \<and> (lifetime_rating sd \<noteq> NOT_FOUND \<longrightarrow> P (str ''    Lifetime Rating: '' @ lifetime_rating sd @ str ''/5''))
      \<and> (lifetime_reviews sd \<noteq> NOT_FOUND \<longrightarrow> P (str ''    Lifetime Reviews: '' @ lifetime_reviews sd))
      \<and> (seller_since sd \<noteq> NOT_FOUND \<longrightarrow> P (nl @ str ''  Seller Since: '' @ seller_since sd))
      \<and> (positive_feedback sd \<noteq> NOT_FOUND \<longrightarrow> P (str ''  Positive Feedback: '' @ positive_feedback sd))
      \<and> (shipped_by sd \<noteq> NOT_FOUND \<longrightarrow> P (str ''  Shipped By: '' @ shipped_by sd))
      \<and> (sold_by sd \<noteq> NOT_FOUND \<longrightarrow> P (str ''  Sold By: '' @ sold_by sd))
      \<and> (seller_description sd \<noteq> NOT_FOUND \<longrightarrow>
            P (str ''  Seller Description: '' @ take 100 (seller_description sd) @ str ''...'')))"
  unfolding display_seller_details_def Let_def
  by (simp only: set_append ball_Un ball_line_if list.set ball_simps) blast


lemma display_fixed_lines:
  "str ''  Seller Name: '' @ seller_name (seller_details p) \<in> set (display_seller_details p)"
  "str ''  Seller Store URL: '' @ seller_store_url (seller_details p) \<in> set (display_seller_details p)"
  by (simp_all add: display_seller_details_def Let_def)

text \<open>
  Claim C4, as amended. Each of the nine fields rating, reviews, lifetime rating, lifetime
  reviews, seller since, positive feedback, shipped by, sold by and description that is
  still \<^verbatim>\<open>"Not found"\<close> has no line in the summary: no printed line starts with its
  label, and the summary has five lines plus one for each of the nine fields that is not
  the sentinel. The seller name and the store URL are always printed, whatever they
  hold.
\<close>

theorem display_omits_sentinel:
  "(let sd = seller_details p; out = display_seller_details p in
     (seller_rating sd = NOT_FOUND \<longrightarrow> (\<forall>l \<in> set out. \<not> starts_with (str ''    Seller Rating: '') l))
   \<and> (seller_reviews sd = NOT_FOUND \<longrightarrow> (\<forall>l \<in> set out. \<not> starts_with (str ''    Seller Reviews: '') l))
   \<and> (lifetime_rating sd = NOT_FOUND \<longrightarrow> (\<forall>l \<in> set out. \<not> starts_with (str ''    Lifetime Rating: '') l))
   \<and> (lifetime_reviews sd = NOT_FOUND \<longrightarrow> (\<forall>l \<in> set out. \<not> starts_with (str ''    Lifetime Reviews: '') l))
   \<and> (seller_since sd = NOT_FOUND \<longrightarrow> (\<forall>l \<in> set out. \<not> starts_with (nl @ str ''  Seller Since: '') l))
   \<and> (positive_feedback sd = NOT_FOUND \<longrightarrow> (\<forall>l \<in> set out. \<not> starts_with (str ''  Positive Feedback: '') l))
   \<and> (shipped_by sd = NOT_FOUND \<longrightarrow> (\<forall>l \<in> set out. \<not> starts_with (str ''  Shipped By: '') l))
   \<and> (sold_by sd = NOT_FOUND \<longrightarrow> (\<forall>l \<in> set out. \<not> starts_with (str ''  Sold By: '') l))
   \<and> (seller_description sd = NOT_FOUND \<longrightarrow> (\<forall>l \<in> set out. \<not> starts_with (str ''  Seller Description: '') l))
   \<and> str ''  Seller Name: '' @ seller_name sd \<in> set out
   \<and> str ''  Seller Store URL: '' @ seller_store_url sd \<in> set out
   \<and> length out = 5 + length (filter (\<lambda>v. v \<noteq> NOT_FOUND) (nine_fields sd)))"
proof -
  let ?sd = "seller_details p"
  let ?out = "display_seller_details p"
  have 1: "seller_rating ?sd = NOT_FOUND \<longrightarrow> (\<forall>l \<in> set ?out. \<not> starts_with (str ''    Seller Rating: '') l)"
    unfolding display_lines Let_def nl_def by (simp add: str_def)
  have 2: "seller_reviews ?sd = NOT_FOUND \<longrightarrow> (\<forall>l \<in> set ?out. \<not> starts_with (str ''    Seller Reviews: '') l)"
    unfolding display_lines Let_def nl_def by (simp add: str_def)
  have 3: "lifetime_rating ?sd = NOT_FOUND \<longrightarrow> (\<forall>l \<in> set ?out. \<not> starts_with (str ''    Lifetime Rating: '') l)"
    unfolding display_lines Let_def nl_def by (simp add: str_def)
  have 4: "lifetime_reviews ?sd = NOT_FOUND \<longrightarrow> (\<forall>l \<in> set ?out. \<not> starts_with (str ''    Lifetime Reviews: '') l)"
    unfolding display_lines Let_def nl_def by (simp add: str_def)
  have 5: "seller_since ?sd = NOT_FOUND \<longrightarrow> (\<forall>l \<in> set ?out. \<not> starts_with (nl @ str ''  Seller Since: '') l)"
    unfolding display_lines Let_def nl_def by (simp add: str_def)
  have 6: "positive_feedback ?sd = NOT_FOUND \<longrightarrow> (\<forall>l \<in> set ?out. \<not> starts_with (str ''  Positive Feedback: '') l)"
    unfolding display_lines Let_def nl_def by (simp add: str_def)
  have 7: "shipped_by ?sd = NOT_FOUND \<longrightarrow> (\<forall>l \<in> set ?out. \<not> starts_with (str ''  Shipped By: '') l)"
    unfolding display_lines Let_def nl_def by (simp add: str_def)
  have 8: "sold_by ?sd = NOT_FOUND \<longrightarrow> (\<forall>l \<in> set ?out. \<not> starts_with (str ''  Sold By: '') l)"
    unfolding display_lines Let_def nl_def by (simp add: str_def)
  have 9: "seller_description ?sd = NOT_FOUND \<longrightarrow> (\<forall>l \<in> set ?out. \<not> starts_with (str ''  Seller Description: '') l)"
    unfolding display_lines Let_def nl_def by (simp add: str_def)
  from 1 2 3 4 5 6 7 8 9 display_fixed_lines[of p] display_length[of p]
  show ?thesis unfolding Let_def by blast
qed

theorem display_omits_sentinel_witness:
  "length (display_seller_details (Product_init [] [] [] [] [] [] [] SellerInfo_init)) = 5"
proof -
  let ?p = "Product_init [] [] [] [] [] [] [] SellerInfo_init"
  have "length (display_seller_details ?p)
          = 5 + length (filter (\<lambda>v. v \<noteq> NOT_FOUND) (nine_fields (seller_details ?p)))"
    using display_omits_sentinel[of ?p] unfolding Let_def by blast
  then show ?thesis by (simp add: nine_fields_def Product_init_def SellerInfo_init_def)
qed

text \<open>
  For a seller record as \<open>SellerInfo.__init__\<close> leaves it, the summary shows the sentinel
  as the seller name.
\<close>

theorem display_shows_sentinel_counterexample:
  "seller_name (seller_details (Product_init [] [] [] [] [] [] [] SellerInfo_init)) = NOT_FOUND
   \<and> str ''  Seller Name: Not found''
       \<in> set (display_seller_details (Product_init [] [] [] [] [] [] [] SellerInfo_init))"
  by (simp add: display_seller_details_def Let_def Product_init_def SellerInfo_init_def
      NOT_FOUND_def str_def)

section \<open>A page without seller markup\<close>

lemma clean_seller_name_sentinel: "clean_seller_name L NOT_FOUND = NOT_FOUND"
  by (simp add: clean_seller_name_def)

lemma NOT_FOUND_nonempty: "NOT_FOUND \<noteq> []"
  by (simp add: NOT_FOUND_def str_def)

text \<open>
  Claim C5. On a page with no fulfilled-by text, no badge, none of the three buybox
  containers, no seller, byline or feedback link and no detail bullets, the seller
  extractor returns the record of \<open>SellerInfo.__init__\<close>: every text field is
  \<^verbatim>\<open>"Not found"\<close> and both flags are false. When such a page is fetched with status 200,
  \<open>scrape\<close> returns a \<open>Product\<close> that holds this record.
\<close>

theorem no_seller_markup:
  assumes "fba_elements soup = []" and "ac_badge soup = None"
    and "merchant_info soup = None" and "seller_profile_div soup = None"
    and "availability soup = None" and "seller_link soup = None" and "bylineInfo soup = None"
    and "feedback_link soup = None" and "detail_bullets soup = None"
  shows "extract_seller_details L soup url = SellerInfo_init
    \<and> (\<forall>response. get_page L url = Some response \<and> status_code response = 200
           \<and> soup_of response = soup \<longrightarrow>
         (\<exists>p. scrape L F url = Some p \<and> seller_details p = SellerInfo_init))
    \<and> seller_name SellerInfo_init = NOT_FOUND \<and> seller_store_url SellerInfo_init = NOT_FOUND
    \<and> seller_rating SellerInfo_init = NOT_FOUND \<and> seller_reviews SellerInfo_init = NOT_FOUND
    \<and> seller_since SellerInfo_init = NOT_FOUND \<and> positive_feedback SellerInfo_init = NOT_FOUND
    \<and> shipped_by SellerInfo_init = NOT_FOUND \<and> sold_by SellerInfo_init = NOT_FOUND
    \<and> seller_description SellerInfo_init = NOT_FOUND \<and> seller_id SellerInfo_init = Some NOT_FOUND
    \<and> lifetime_rating SellerInfo_init = NOT_FOUND \<and> lifetime_reviews SellerInfo_init = NOT_FOUND
    \<and> \<not> is_amazon SellerInfo_init \<and> \<not> is_fulfilled_by_amazon SellerInfo_init"
proof -
  have a: "page_signals soup SellerInfo_init = SellerInfo_init"
    using assms by (simp add: page_signals_def)
  have b: "extract_seller_from_buybox L soup SellerInfo_init = SellerInfo_init"
    using assms by (simp add: extract_seller_from_buybox_def first_found_def)
  have c: "extract_seller_from_links L soup SellerInfo_init = Inr SellerInfo_init"
    using assms by (simp add: extract_seller_from_links_def)
  have d: "extract_seller_feedback L soup SellerInfo_init = SellerInfo_init"
    using assms by (simp add: extract_seller_feedback_def)
  have e: "detail_bullets_stage L soup SellerInfo_init = SellerInfo_init"
    using assms by (simp add: detail_bullets_stage_def)
  have f: "seller_page_stage L SellerInfo_init = SellerInfo_init"
    by (simp add: seller_page_stage_def SellerInfo_init_def)
  have g: "clean_names L SellerInfo_init = SellerInfo_init"
    by (simp add: clean_names_def Let_def clean_seller_name_sentinel SellerInfo_init_def)
  have x: "extract_seller_details L soup url = SellerInfo_init"
    by (simp add: extract_seller_details_def a b c d e f g)
  have y: "\<forall>response. get_page L url = Some response \<and> status_code response = 200
           \<and> soup_of response = soup \<longrightarrow>
         (\<exists>p. scrape L F url = Some p \<and> seller_details p = SellerInfo_init)"
    by (auto simp: scrape_def Let_def x Product_init_def split: prod.splits)
  have z: "seller_name SellerInfo_init = NOT_FOUND \<and> seller_store_url SellerInfo_init = NOT_FOUND
    \<and> seller_rating SellerInfo_init = NOT_FOUND \<and> seller_reviews SellerInfo_init = NOT_FOUND
    \<and> seller_since SellerInfo_init = NOT_FOUND \<and> positive_feedback SellerInfo_init = NOT_FOUND
    \<and> shipped_by SellerInfo_init = NOT_FOUND \<and> sold_by SellerInfo_init = NOT_FOUND
    \<and> seller_description SellerInfo_init = NOT_FOUND \<and> seller_id SellerInfo_init = Some NOT_FOUND
    \<and> lifetime_rating SellerInfo_init = NOT_FOUND \<and> lifetime_reviews SellerInfo_init = NOT_FOUND
    \<and> \<not> is_amazon SellerInfo_init \<and> \<not> is_fulfilled_by_amazon SellerInfo_init"
    by (simp add: SellerInfo_init_def)
  from x y z show ?thesis by blast
qed

theorem no_seller_markup_witness:
  "seller_details (the (scrape (serving empty_page) plain_floats (str ''https://x/p'')))
     = SellerInfo_init"
proof -
  let ?L = "serving empty_page"
  let ?r = "\<lparr>status_code = 200, soup_of = empty_page\<rparr>"
  have h: "fba_elements empty_page = []" "ac_badge empty_page = None"
    "merchant_info empty_page = None" "seller_profile_div empty_page = None"
    "availability empty_page = None" "seller_link empty_page = None"
    "bylineInfo empty_page = None" "feedback_link empty_page = None"
    "detail_bullets empty_page = None"
    by (simp_all add: empty_page_def)
  have g: "get_page ?L (str ''https://x/p'') = Some ?r \<and> status_code ?r = 200 \<and> soup_of ?r = empty_page"
    by (simp add: serving_def)
  from no_seller_markup[OF h, of ?L "str ''https://x/p''" plain_floats] g
  obtain p where "scrape ?L plain_floats (str ''https://x/p'') = Some p"
      "seller_details p = SellerInfo_init"
    by blast
  then show ?thesis by simp
qed

section \<open>The seller identifier\<close>

lemma seller_id_feedback [simp]:
  "seller_id (extract_seller_feedback L soup s) = seller_id s"
  by (simp add: extract_seller_feedback_def Let_def split: option.splits)

lemma seller_id_bullet [simp]: "seller_id (detail_bullet L s b) = seller_id s"
  by (simp add: detail_bullet_def Let_def split: option.splits)

lemma seller_id_bullets_fold: "seller_id (foldl (detail_bullet L) s bs) = seller_id s"
  by (induction bs arbitrary: s) simp_all

lemma seller_id_bullets [simp]: "seller_id (detail_bullets_stage L soup s) = seller_id s"
  by (simp add: detail_bullets_stage_def seller_id_bullets_fold split: option.splits)

lemma seller_id_twelve:
  "process_twelve_month L t s = Inl x \<Longrightarrow> seller_id x = seller_id s"
  "process_twelve_month L t s = Inr x \<Longrightarrow> seller_id x = seller_id s"
  by (auto simp: process_twelve_month_def Let_def split: option.splits if_splits sum.splits)

lemma seller_id_lifetime:
  "process_lifetime L t s = Inl x \<Longrightarrow> seller_id x = seller_id s"
  "process_lifetime L t s = Inr x \<Longrightarrow> seller_id x = seller_id s"
  by (auto simp: process_lifetime_def Let_def split: option.splits if_splits sum.splits)

lemma seller_id_dom_overrides [simp]: "seller_id (dom_overrides L soup s) = seller_id s"
  by (simp add: dom_overrides_def fill_positive_feedback_def fill_seller_reviews_def
      override_effective_period_def override_rating_year_def Let_def split: option.splits)

lemma seller_id_seller_page [simp]: "seller_id (scrape_seller_page L s) = seller_id s"
proof -
  have "\<And>t l. seller_id (case process_twelve_month L t s of
                  Inl x \<Rightarrow> x
                | Inr s1 \<Rightarrow> (case process_lifetime L l s1 of
                              Inl x \<Rightarrow> x | Inr s2 \<Rightarrow> dom_overrides L soup s2)) = seller_id s"
    for soup
    by (auto split: sum.splits simp: seller_id_twelve seller_id_lifetime)
  then show ?thesis
    by (simp add: scrape_seller_page_def Let_def split: option.splits prod.splits)
qed

lemma seller_id_page_stage [simp]: "seller_id (seller_page_stage L s) = seller_id s"
  by (simp add: seller_page_stage_def)

lemma seller_id_clean_names [simp]: "seller_id (clean_names L s) = seller_id s"
  by (simp add: clean_names_def Let_def)

lemma seller_id_store_link:
  "store_link_url L link (store_link_name link s) = Inl x \<Longrightarrow> seller_id x = seller_id s"
  "store_link_url L link (store_link_name link s) = Inr x \<Longrightarrow> seller_id x = seller_id s"
  by (auto simp: store_link_url_def store_link_name_def Let_def split: option.splits if_splits)

text \<open>
  Claim C1 fails for \<open>seller_id\<close>. When the page has a seller profile link with an
  \<open>href\<close> and the joined URL has no \<open>seller\<close> parameter,
  \<open>get_seller_id_from_url\<close> returns \<open>None\<close>, \<open>_extract_seller_from_links\<close> stores it in
  place of the sentinel, and no later stage assigns \<open>seller_id\<close>: the record returned
  by \<open>_extract_seller_details\<close> holds \<open>None\<close> there, for every behaviour of the
  libraries and of the seller page. (The other eleven text fields only ever receive
  strings, which their type in \<open>SellerInfo\<close> records.)
\<close>

theorem seller_id_none:
  assumes "seller_link soup = Some link" and "get_attr link ''href'' = Some href"
    and "urljoin L BASE_URL href = Some seller_url"
    and "parse_qs_query L seller_url = Some query_params"
    and "map_of query_params (str ''seller'') = None"
  shows "seller_id (extract_seller_details L soup url) = None"
proof -
  let ?s0 = "extract_seller_from_buybox L soup (page_signals soup SellerInfo_init)"
  let ?s1 = "seller_link_name L link ?s0"
  let ?s2 = "?s1\<lparr>seller_store_url := seller_url, seller_id := None\<rparr>"
  have id: "get_seller_id_from_url L seller_url = None"
    using assms(4,5) by (simp add: get_seller_id_from_url_def)
  have l: "seller_link_url L link ?s1 = Inr ?s2"
    using assms(2,3) id by (simp add: seller_link_url_def)
  have links: "extract_seller_from_links L soup ?s0 =
      (case bylineInfo soup of
         None \<Rightarrow> Inr ?s2
       | Some store_link \<Rightarrow> store_link_url L store_link (store_link_name store_link ?s2))"
    using assms(1) l by (simp add: extract_seller_from_links_def)
  have "\<And>x. extract_seller_from_links L soup ?s0 = Inl x \<Longrightarrow> seller_id x = None"
    "\<And>x. extract_seller_from_links L soup ?s0 = Inr x \<Longrightarrow> seller_id x = None"
    unfolding links by (auto split: option.splits dest: seller_id_store_link)
  then show ?thesis
    by (auto simp: extract_seller_details_def split: sum.splits)
qed

theorem seller_id_none_witness:
  "seller_id (extract_seller_details quiet_lib seller_link_page (str ''https://x/p'')) = None"
proof -
  let ?link = "link_element ''/sp'' ''Acme''"
  have a: "seller_link seller_link_page = Some ?link"
    by (simp add: seller_link_page_def)
  have b: "get_attr ?link ''href'' = Some (str ''/sp'')"
    by (simp add: get_attr_def link_element_def)
  have c: "urljoin quiet_lib BASE_URL (str ''/sp'') = Some (BASE_URL @ str ''/sp'')"
    by (simp add: quiet_lib_def)
  have d: "parse_qs_query quiet_lib (BASE_URL @ str ''/sp'') = Some []"
    by (simp add: quiet_lib_def)
  have e: "map_of ([] :: (pystr \<times> pystr list) list) (str ''seller'') = None" by simp
  from seller_id_none[OF a b c d e] show ?thesis .
qed

end
